theory Spec2Isabelle
  imports Complex_Main
begin

section \<open>JavaScript values\<close>

text \<open>
  The workflow engines keep their variables, node configurations and edge conditions as
  JSON-like JavaScript values (\<^verbatim>\<open>Record<string, any>\<close>, Prisma \<^verbatim>\<open>Json\<close>). A number is
  an IEEE double; the model keeps its exact value, which is all that \<^verbatim>\<open>===\<close>, \<^verbatim>\<open><\<close> and
  \<^verbatim>\<open>>\<close> read. \<open>JNative k\<close> stands for the member \<open>k\<close> that every plain object
  inherits from \<^verbatim>\<open>Object.prototype\<close>; it only ever appears as the result of a property
  read.
\<close>

datatype jsnum = Fin rat | NaN | PosInf | NegInf

datatype jsval =
    JUndefined
  | JNull
  | JBool bool
  | JNum jsnum
  | JStr string
  | JArr "jsval list"
  | JObj "(string \<times> jsval) list"
  | JNative string

type_synonym jsobj = "(string \<times> jsval) list"

text \<open>
  Why the loop detector aborts a run; its error message is built from these values.
\<close>

datatype loop_reason =
    ExecutionTimeout int
  | NodeLimitExceeded nat
  | InfiniteLoop string nat

datatype js_error =
    TypeError
  | SyntaxError
  | JsError string
  | WorkflowExecutorError string nat
  | WorkflowError string nat
  | WorkflowLoopError loop_reason
  | PrismaNotFound

text \<open>
  What the engines take from the JavaScript platform and from external services, and
  what this development therefore takes as parameters: number formatting and parsing,
  the regular-expression engine, the WHATWG URL parser, and the node executors that only
  wrap an external capability (AI completion, knowledge search, e-mail, clock).
\<close>

record parsed_url =
  url_protocol :: string
  url_hostname :: string

record node_result =
  nr_success :: bool
  nr_data :: "jsobj option"
  nr_error :: "string option"
  nr_shouldContinue :: bool

record platform =
  numToString :: "jsnum \<Rightarrow> string"
  stringToNumber :: "string \<Rightarrow> jsnum"
  nativeToString :: "string \<Rightarrow> string"
  regexTest :: "string \<Rightarrow> string \<Rightarrow> js_error + bool"
  regexReplaceAll :: "string \<Rightarrow> string \<Rightarrow> string \<Rightarrow> js_error + string"
  parseUrl :: "string \<Rightarrow> parsed_url option"
  platformErrorMessage :: "js_error \<Rightarrow> string"
  jsonStringify :: "jsval \<Rightarrow> string"
  fetchJson :: "string \<Rightarrow> string \<Rightarrow> string option \<Rightarrow> string + (jsval \<times> jsnum \<times> bool)"
  external :: "string \<Rightarrow> jsobj \<Rightarrow> string \<Rightarrow> jsobj \<Rightarrow> string list \<times> (js_error + jsobj)"
  executors :: "string \<Rightarrow> jsobj \<Rightarrow> jsobj \<Rightarrow> nat \<Rightarrow> js_error + node_result"

fun truthy :: "jsval \<Rightarrow> bool" where
  "truthy JUndefined = False"
| "truthy JNull = False"
| "truthy (JBool b) = b"
| "truthy (JNum (Fin q)) = (q \<noteq> 0)"
| "truthy (JNum NaN) = False"
| "truthy (JNum PosInf) = True"
| "truthy (JNum NegInf) = True"
| "truthy (JStr s) = (s \<noteq> [])"
| "truthy (JArr xs) = True"
| "truthy (JObj kvs) = True"
| "truthy (JNative k) = True"

text \<open>The names every plain object inherits from \<^verbatim>\<open>Object.prototype\<close>.\<close>

definition object_prototype_keys :: "string list" where
  "object_prototype_keys =
     [''constructor'', ''__defineGetter__'', ''__defineSetter__'', ''hasOwnProperty'',
      ''__lookupGetter__'', ''__lookupSetter__'', ''isPrototypeOf'',
      ''propertyIsEnumerable'', ''toString'', ''valueOf'', ''__proto__'',
      ''toLocaleString'']"

text \<open>\<^verbatim>\<open>obj[key]\<close> on a plain object: the own property, else the inherited member.\<close>

definition js_lookup :: "jsobj \<Rightarrow> string \<Rightarrow> jsval" where
  "js_lookup obj key =
     (case map_of obj key of
        Some v \<Rightarrow> v
      | None \<Rightarrow> if key \<in> set object_prototype_keys then JNative key else JUndefined)"

text \<open>
  Destructuring \<^verbatim>\<open>const { field, operator, value } = condition\<close>: it throws on
  \<^verbatim>\<open>null\<close> and \<^verbatim>\<open>undefined\<close>, reads an object, and finds none of these three names on a
  primitive or an array.
\<close>

definition js_prop :: "jsval \<Rightarrow> string \<Rightarrow> js_error + jsval" where
  "js_prop v key =
     (case v of
        JUndefined \<Rightarrow> Inl TypeError
      | JNull \<Rightarrow> Inl TypeError
      | JObj kvs \<Rightarrow> Inr (js_lookup kvs key)
      | _ \<Rightarrow> Inr JUndefined)"

fun sequence_sum :: "('e + 'a) list \<Rightarrow> 'e + 'a list" where
  "sequence_sum [] = Inr []"
| "sequence_sum (r # rs) =
     (case r of
        Inl e \<Rightarrow> Inl e
      | Inr x \<Rightarrow> (case sequence_sum rs of Inl e \<Rightarrow> Inl e | Inr xs \<Rightarrow> Inr (x # xs)))"

fun join_comma :: "string list \<Rightarrow> string" where
  "join_comma [] = []"
| "join_comma [s] = s"
| "join_comma (s # t # ss) = s @ '','' @ join_comma (t # ss)"

text \<open>
  \<^verbatim>\<open>String(v)\<close>. An array joins its elements (\<^verbatim>\<open>null\<close> and \<^verbatim>\<open>undefined\<close> as the empty
  string). A plain object answers \<^verbatim>\<open>[object Object]\<close> through the inherited
  \<^verbatim>\<open>toString\<close>; an object parsed from JSON that has an own property named
  \<^verbatim>\<open>toString\<close> shadows it with a value that is not callable, and the conversion throws
  a \<^verbatim>\<open>TypeError\<close>.
\<close>

fun js_ToString :: "platform \<Rightarrow> jsval \<Rightarrow> js_error + string" where
  "js_ToString P JUndefined = Inr ''undefined''"
| "js_ToString P JNull = Inr ''null''"
| "js_ToString P (JBool b) = Inr (if b then ''true'' else ''false'')"
| "js_ToString P (JNum n) = Inr (numToString P n)"
| "js_ToString P (JStr s) = Inr s"
| "js_ToString P (JArr xs) =
     (case sequence_sum
             (map (\<lambda>x. if x = JUndefined \<or> x = JNull then Inr [] else js_ToString P x) xs) of
        Inl e \<Rightarrow> Inl e
      | Inr ss \<Rightarrow> Inr (join_comma ss))"
| "js_ToString P (JObj kvs) =
     (if map_of kvs ''toString'' \<noteq> None then Inl TypeError else Inr ''[object Object]'')"
| "js_ToString P (JNative k) = Inr (nativeToString P k)"

text \<open>\<^verbatim>\<open>Number(v)\<close>: objects and arrays convert through their string form.\<close>

fun js_ToNumber :: "platform \<Rightarrow> jsval \<Rightarrow> js_error + jsnum" where
  "js_ToNumber P JUndefined = Inr NaN"
| "js_ToNumber P JNull = Inr (Fin 0)"
| "js_ToNumber P (JBool b) = Inr (Fin (if b then 1 else 0))"
| "js_ToNumber P (JNum n) = Inr n"
| "js_ToNumber P (JStr s) = Inr (stringToNumber P s)"
| "js_ToNumber P v =
     (case js_ToString P v of Inl e \<Rightarrow> Inl e | Inr s \<Rightarrow> Inr (stringToNumber P s))"

fun num_less :: "jsnum \<Rightarrow> jsnum \<Rightarrow> bool" where
  "num_less NaN b = False"
| "num_less a NaN = False"
| "num_less (Fin a) (Fin b) = (a < b)"
| "num_less (Fin a) PosInf = True"
| "num_less (Fin a) NegInf = False"
| "num_less PosInf b = False"
| "num_less NegInf NegInf = False"
| "num_less NegInf b = True"

text \<open>
  \<^verbatim>\<open>a === b\<close>: same type and same value; \<^verbatim>\<open>NaN\<close> equals nothing; two objects or arrays
  are equal only when they are the same object, which a value read from the variables
  and a value read from a condition never are.
\<close>

fun strict_eq :: "jsval \<Rightarrow> jsval \<Rightarrow> bool" where
  "strict_eq JUndefined JUndefined = True"
| "strict_eq JNull JNull = True"
| "strict_eq (JBool a) (JBool b) = (a = b)"
| "strict_eq (JNum a) (JNum b) = (a \<noteq> NaN \<and> a = b)"
| "strict_eq (JStr a) (JStr b) = (a = b)"
| "strict_eq a b = False"

text \<open>\<^verbatim>\<open>s.includes(sub)\<close>: \<open>sub\<close> occurs in \<open>s\<close> as a contiguous run.\<close>

fun includes_str :: "string \<Rightarrow> string \<Rightarrow> bool" where
  "includes_str [] sub = (sub = [])"
| "includes_str (c # cs) sub = (take (length sub) (c # cs) = sub \<or> includes_str cs sub)"


definition bindE :: "'e + 'a \<Rightarrow> ('a \<Rightarrow> 'e + 'b) \<Rightarrow> 'e + 'b" where
  "bindE m f = (case m of Inl e \<Rightarrow> Inl e | Inr x \<Rightarrow> f x)"

section \<open>The persisted engine's data (lib/workflowStateManager, workflowExecutor.service)\<close>

text \<open>
  A node's \<open>config\<close> is a JSON object (the repository's node configuration interfaces
  are all object types); an edge's \<open>condition\<close> is any JSON value, \<open>JUndefined\<close> when
  the edge has none.
\<close>

record wf_node =
  node_id :: string
  node_type :: string
  node_config :: jsobj
  node_label :: string

record wf_edge =
  edge_id :: string
  sourceNodeId :: string
  targetNodeId :: string
  condition :: jsval

record wf_graph =
  nodes :: "wf_node list"
  edges :: "wf_edge list"

record input_validation =
  iv_type :: "string option"
  iv_pattern :: "string option"
  iv_errorMessage :: "string option"

record exec_context =
  conversationId :: string
  workflowId :: string
  executionId :: string
  currentNodeId :: "string option"
  variables :: jsobj
  waitingForInput :: bool
  expectedInputType :: "string option"
  expectedInputValidation :: "input_validation option"
  workflow :: wf_graph

section \<open>Edge conditions and routing (workflowExecutor.service)\<close>

definition string_includes :: "platform \<Rightarrow> jsval \<Rightarrow> jsval \<Rightarrow> js_error + bool" where
  "string_includes P a b =
     bindE (js_ToString P a) (\<lambda>s. bindE (js_ToString P b) (\<lambda>sub. Inr (includes_str s sub)))"

definition number_less :: "platform \<Rightarrow> jsval \<Rightarrow> jsval \<Rightarrow> js_error + bool" where
  "number_less P a b =
     bindE (js_ToNumber P a) (\<lambda>x. bindE (js_ToNumber P b) (\<lambda>y. Inr (num_less x y)))"

text \<open>\<^verbatim>\<open>Number(a) > Number(b)\<close>: the left operand is converted first.\<close>

definition number_greater :: "platform \<Rightarrow> jsval \<Rightarrow> jsval \<Rightarrow> js_error + bool" where
  "number_greater P a b =
     bindE (js_ToNumber P a) (\<lambda>x. bindE (js_ToNumber P b) (\<lambda>y. Inr (num_less y x)))"

definition implemented_operators :: "string list" where
  "implemented_operators =
     [''equals'', ''notEquals'', ''contains'', ''notContains'', ''greaterThan'',
      ''lessThan'', ''exists'', ''notExists'']"

text \<open>
  \<^verbatim>\<open>evaluateCondition(condition, variables)\<close> of the persisted engine. \<^verbatim>\<open>variables[field]\<close>
  converts \<open>field\<close> to a property key before the \<^verbatim>\<open>switch\<close> is entered.
\<close>

definition evaluateCondition :: "platform \<Rightarrow> jsval \<Rightarrow> jsobj \<Rightarrow> js_error + bool" where
  "evaluateCondition P cond vars =
     bindE (js_prop cond ''field'') (\<lambda>field.
     bindE (js_prop cond ''operator'') (\<lambda>operator.
     bindE (js_prop cond ''value'') (\<lambda>value.
       if \<not> truthy field \<or> \<not> truthy operator then Inr True
       else bindE (js_ToString P field) (\<lambda>key.
         let fieldValue = js_lookup vars key in
         if operator = JStr ''equals'' then Inr (strict_eq fieldValue value)
         else if operator = JStr ''notEquals'' then Inr (\<not> strict_eq fieldValue value)
         else if operator = JStr ''contains'' then string_includes P fieldValue value
         else if operator = JStr ''notContains'' then
           bindE (string_includes P fieldValue value) (\<lambda>b. Inr (\<not> b))
         else if operator = JStr ''greaterThan'' then number_greater P fieldValue value
         else if operator = JStr ''lessThan'' then number_less P fieldValue value
         else if operator = JStr ''exists'' then
           Inr (fieldValue \<noteq> JUndefined \<and> fieldValue \<noteq> JNull)
         else if operator = JStr ''notExists'' then
           Inr (fieldValue = JUndefined \<or> fieldValue = JNull)
         else Inr True))))"

text \<open>
  The \<^verbatim>\<open>for\<close> loop of \<^verbatim>\<open>findNextNode\<close> over the outgoing edges: an edge whose condition
  is falsy is taken at once; otherwise the condition decides, and an error it raises
  leaves the loop.
\<close>

fun firstEdge :: "platform \<Rightarrow> jsobj \<Rightarrow> wf_edge list \<Rightarrow> js_error + string option" where
  "firstEdge P vars [] = Inr None"
| "firstEdge P vars (e # es) =
     (if truthy (condition e) then
        (case evaluateCondition P (condition e) vars of
           Inl err \<Rightarrow> Inl err
         | Inr conditionMet \<Rightarrow>
             if conditionMet then Inr (Some (targetNodeId e)) else firstEdge P vars es)
      else Inr (Some (targetNodeId e)))"

definition outgoingEdges :: "wf_graph \<Rightarrow> string \<Rightarrow> wf_edge list" where
  "outgoingEdges g nid = filter (\<lambda>e. sourceNodeId e = nid) (edges g)"

definition findNextNode :: "platform \<Rightarrow> wf_node \<Rightarrow> exec_context \<Rightarrow> js_error + string option" where
  "findNextNode P currentNode ctx =
     (let outgoing = outgoingEdges (workflow ctx) (node_id currentNode) in
      if length outgoing = 0 then Inr None
      else firstEdge P (variables ctx) outgoing)"


section \<open>The world the persisted engine acts on\<close>

text \<open>
  The Redis keys \<^verbatim>\<open>workflow:state:<conversationId>\<close> (\<open>store\<close>) and \<^verbatim>\<open>lock:<resource>\<close>
  (\<open>locks\<close>), the database tables \<^verbatim>\<open>workflowExecution\<close> and \<^verbatim>\<open>workflow\<close>, the messages
  sent to visitors, the HTTP requests the API-call action issues, and the two
  application-log events that record a dispatch. Redis and the database are taken to
  answer; key expiry (the one-hour TTL of a context, the TTL of a lock) is not modelled.
  An execution log entry is kept as a value rather than as its message text.
\<close>

datatype exec_status = RUNNING | COMPLETED | FAILED

datatype exec_log = LogExecuting string string | LogWaiting | LogError js_error

record execution =
  ex_workflowId :: string
  ex_conversationId :: string
  ex_status :: exec_status
  ex_error :: "js_error option"
  ex_logs :: "exec_log list"

record workflow_row =
  wr_isActive :: bool
  wr_deleted :: bool
  wr_graph :: wf_graph

datatype log_event = ExecutingNode string | UnknownNodeType string string

record world =
  store :: "string \<Rightarrow> exec_context option"
  locks :: "string \<Rightarrow> string option"
  executions :: "string \<Rightarrow> execution option"
  workflows :: "string \<Rightarrow> workflow_row option"
  messages :: "(string \<times> string) list"
  requests :: "string list"
  applog :: "log_event list"

text \<open>
  \<^verbatim>\<open>JSON.parse(JSON.stringify(v))\<close>: a property whose value is \<^verbatim>\<open>undefined\<close> is dropped, an
  \<^verbatim>\<open>undefined\<close> array element and a number that is not finite become \<^verbatim>\<open>null\<close>.
\<close>

fun is_native :: "jsval \<Rightarrow> bool" where
  "is_native (JNative k) = True"
| "is_native v = False"

fun json_clean :: "jsval \<Rightarrow> jsval" where
  "json_clean JUndefined = JNull"
| "json_clean JNull = JNull"
| "json_clean (JBool b) = JBool b"
| "json_clean (JNum n) = (case n of Fin q \<Rightarrow> JNum (Fin q) | _ \<Rightarrow> JNull)"
| "json_clean (JStr s) = JStr s"
| "json_clean (JArr xs) = JArr (map json_clean xs)"
| "json_clean (JObj kvs) =
     JObj (map (\<lambda>kv. (fst kv, json_clean (snd kv)))
            (filter (\<lambda>kv. snd kv \<noteq> JUndefined \<and> \<not> is_native (snd kv)) kvs))"
| "json_clean (JNative k) = JNull"

definition json_object :: "jsobj \<Rightarrow> jsobj" where
  "json_object kvs = (case json_clean (JObj kvs) of JObj kvs' \<Rightarrow> kvs' | _ \<Rightarrow> [])"

text \<open>\<^verbatim>\<open>WorkflowStateManager\<close>: \<^verbatim>\<open>saveContext\<close>, \<^verbatim>\<open>getContext\<close>, \<^verbatim>\<open>deleteContext\<close>.\<close>

definition saveContext :: "exec_context \<Rightarrow> world \<Rightarrow> world" where
  "saveContext ctx w =
     w\<lparr>store := (store w)(conversationId ctx \<mapsto> ctx\<lparr>variables := json_object (variables ctx)\<rparr>)\<rparr>"

definition getContext :: "string \<Rightarrow> world \<Rightarrow> exec_context option" where
  "getContext cid w = store w cid"

definition deleteContext :: "string \<Rightarrow> world \<Rightarrow> world" where
  "deleteContext cid w = w\<lparr>store := (store w)(cid := None)\<rparr>"

text \<open>\<^verbatim>\<open>getWorkflowState\<close> and \<^verbatim>\<open>stopWorkflowForConversation\<close>.\<close>

definition getWorkflowState :: "string \<Rightarrow> world \<Rightarrow> exec_context option" where
  "getWorkflowState cid w = getContext cid w"

definition stopWorkflowForConversation :: "string \<Rightarrow> world \<Rightarrow> world" where
  "stopWorkflowForConversation cid w = deleteContext cid w"

text \<open>
  \<^verbatim>\<open>addExecutionLog\<close> returns silently when the execution record is missing;
  \<^verbatim>\<open>markExecutionCompleted\<close> and \<^verbatim>\<open>markExecutionFailed\<close> are Prisma updates, which
  reject when there is no record to update.
\<close>

definition addExecutionLog :: "string \<Rightarrow> exec_log \<Rightarrow> world \<Rightarrow> world" where
  "addExecutionLog eid entry w =
     (case executions w eid of
        None \<Rightarrow> w
      | Some ex \<Rightarrow> w\<lparr>executions := (executions w)(eid \<mapsto> ex\<lparr>ex_logs := ex_logs ex @ [entry]\<rparr>)\<rparr>)"

definition markExecutionCompleted :: "string \<Rightarrow> world \<Rightarrow> (js_error + unit) \<times> world" where
  "markExecutionCompleted eid w =
     (case executions w eid of
        None \<Rightarrow> (Inl PrismaNotFound, w)
      | Some ex \<Rightarrow>
          (Inr (), w\<lparr>executions := (executions w)(eid \<mapsto> ex\<lparr>ex_status := COMPLETED\<rparr>)\<rparr>))"

definition markExecutionFailed :: "string \<Rightarrow> js_error \<Rightarrow> world \<Rightarrow> (js_error + unit) \<times> world" where
  "markExecutionFailed eid err w =
     (case executions w eid of
        None \<Rightarrow> (Inl PrismaNotFound, w)
      | Some ex \<Rightarrow>
          (Inr (), w\<lparr>executions :=
                      (executions w)(eid \<mapsto> ex\<lparr>ex_status := FAILED, ex_error := Some err\<rparr>)\<rparr>))"

definition sendMessageToUser :: "string \<Rightarrow> string \<Rightarrow> world \<Rightarrow> world" where
  "sendMessageToUser cid msg w = w\<lparr>messages := messages w @ [(cid, msg)]\<rparr>"


section \<open>Objects, variable interpolation\<close>

text \<open>
  Defining the own property \<open>k\<close> of an object, and the spread \<^verbatim>\<open>{ ...a, ...b }\<close>, which
  defines the properties of \<open>a\<close> and then those of \<open>b\<close>.
\<close>

fun obj_set :: "string \<Rightarrow> jsval \<Rightarrow> jsobj \<Rightarrow> jsobj" where
  "obj_set k v [] = [(k, v)]"
| "obj_set k v (kv # rest) = (if fst kv = k then (k, v) # rest else kv # obj_set k v rest)"

definition obj_merge :: "jsobj \<Rightarrow> jsobj \<Rightarrow> jsobj" where
  "obj_merge a b = foldl (\<lambda>acc kv. obj_set (fst kv) (snd kv) acc) a b"

text \<open>
  The assignment \<^verbatim>\<open>obj[key] = v\<close> and \<^verbatim>\<open>Object.assign(a, b)\<close>, which assigns the
  properties of \<open>b\<close> one by one. An assignment defines the own property, except for the
  key \<^verbatim>\<open>__proto__\<close>: that one defines no property but hands \<open>v\<close> to the setter that
  replaces the prototype. Objects here have the prototype \<^verbatim>\<open>Object.prototype\<close>
  throughout, so what an object inherits after such an assignment is not followed.
\<close>

definition js_assign :: "string \<Rightarrow> jsval \<Rightarrow> jsobj \<Rightarrow> jsobj" where
  "js_assign k v obj = (if k = ''__proto__'' then obj else obj_set k v obj)"

definition object_assign :: "jsobj \<Rightarrow> jsobj \<Rightarrow> jsobj" where
  "object_assign a b = foldl (\<lambda>acc kv. js_assign (fst kv) (snd kv) acc) a b"

text \<open>
  \<^verbatim>\<open>Object.keys\<close>: the keys that are array indices in ascending numeric order, then the
  others in insertion order.
\<close>

definition digits_value :: "string \<Rightarrow> nat" where
  "digits_value s = foldl (\<lambda>a c. 10 * a + (of_char c - 48)) 0 s"

definition is_array_index :: "string \<Rightarrow> bool" where
  "is_array_index s \<longleftrightarrow>
     s \<noteq> [] \<and> (\<forall>c \<in> set s. c \<in> set ''0123456789'') \<and> (s = ''0'' \<or> hd s \<noteq> CHR ''0'')
     \<and> digits_value s < 4294967295"

definition objectKeys :: "jsobj \<Rightarrow> string list" where
  "objectKeys obj =
     (let ks = map fst obj in
      sort_key digits_value (filter is_array_index ks) @ filter (\<lambda>k. \<not> is_array_index k) ks)"

definition MAX_VARIABLE_SIZE :: nat where
  "MAX_VARIABLE_SIZE = 10000"

text \<open>
  One round of the \<^verbatim>\<open>forEach\<close> in \<^verbatim>\<open>interpolateVariables\<close>:
  \<^verbatim>\<open>String(variables[key] || "")\<close>, truncated when too long, replaces every match of
  the regular expression built from \<^verbatim>\<open>{{key}}\<close>.
\<close>

definition interpolateKey :: "platform \<Rightarrow> jsobj \<Rightarrow> string \<Rightarrow> string \<Rightarrow> js_error + string" where
  "interpolateKey P vars key text =
     bindE (let v = js_lookup vars key in if truthy v then js_ToString P v else Inr [])
       (\<lambda>val.
          let replacement =
                (if length val > MAX_VARIABLE_SIZE then take MAX_VARIABLE_SIZE val @ ''...''
                 else val)
          in regexReplaceAll P (''{{'' @ key @ ''}}'') replacement text)"

fun interpolateKeys :: "platform \<Rightarrow> jsobj \<Rightarrow> string list \<Rightarrow> string \<Rightarrow> js_error + string" where
  "interpolateKeys P vars [] text = Inr text"
| "interpolateKeys P vars (k # ks) text =
     bindE (interpolateKey P vars k text) (interpolateKeys P vars ks)"

definition interpolateVariables :: "platform \<Rightarrow> string \<Rightarrow> jsobj \<Rightarrow> js_error + string" where
  "interpolateVariables P text vars = interpolateKeys P vars (objectKeys vars) text"

text \<open>
  A configuration field that holds a text (a prompt, a message, a URL, the name of a
  variable): the string, or the empty string when the field is absent
  (\<^verbatim>\<open>config.x || ""\<close>; the empty string is falsy). The executors are followed for
  configurations whose text fields hold strings, as the workflow editor writes them.
\<close>

definition config_string :: "jsobj \<Rightarrow> string \<Rightarrow> string" where
  "config_string config key = (case js_lookup config key of JStr s \<Rightarrow> s | _ \<Rightarrow> [])"

section \<open>The SSRF guard and the API-call action (workflowExecutor.service)\<close>

definition lowercase :: "string \<Rightarrow> string" where
  "lowercase s =
     map (\<lambda>c. if (65::nat) \<le> of_char c \<and> of_char c \<le> (90::nat)
              then char_of (of_char c + (32::nat)) else c) s"

definition startsWith :: "string \<Rightarrow> string \<Rightarrow> bool" where
  "startsWith s p = (take (length p) s = p)"

definition blockedHosts :: "string list" where
  "blockedHosts = [''localhost'', ''127.0.0.1'', ''0.0.0.0'', ''::1'']"

text \<open>The regular expression \<^verbatim>\<open>/^172\.(1[6-9]|2[0-9]|3[0-1])\./\<close> on the host name.\<close>

definition matches172 :: "string \<Rightarrow> bool" where
  "matches172 h \<longleftrightarrow>
     startsWith h ''172.'' \<and> 7 \<le> length h \<and> h ! 6 = CHR ''.'' \<and>
     ((h ! 4 = CHR ''1'' \<and> h ! 5 \<in> set ''6789'') \<or>
      (h ! 4 = CHR ''2'' \<and> h ! 5 \<in> set ''0123456789'') \<or>
      (h ! 4 = CHR ''3'' \<and> h ! 5 \<in> set ''01''))"

text \<open>
  \<^verbatim>\<open>validateApiUrl\<close>. Its \<^verbatim>\<open>catch\<close> rethrows only an error whose message starts with
  \<^verbatim>\<open>Cannot\<close>; the parser's own error and the protocol error both leave as
  \<^verbatim>\<open>Invalid URL format\<close>.
\<close>

definition validateApiUrl :: "platform \<Rightarrow> string \<Rightarrow> js_error + unit" where
  "validateApiUrl P url =
     (case parseUrl P url of
        None \<Rightarrow> Inl (JsError ''Invalid URL format'')
      | Some parsed \<Rightarrow>
          if lowercase (url_hostname parsed) \<in> set blockedHosts then
            Inl (JsError ''Cannot call localhost or internal addresses'')
          else if startsWith (url_hostname parsed) ''192.168.'' \<or>
                  startsWith (url_hostname parsed) ''10.'' \<or>
                  matches172 (url_hostname parsed) \<or>
                  startsWith (url_hostname parsed) ''169.254.'' then
            Inl (JsError ''Cannot call private networks'')
          else if url_protocol parsed \<notin> set [''http:'', ''https:''] then
            Inl (JsError ''Invalid URL format'')
          else Inr ())"

text \<open>
  \<^verbatim>\<open>executeActionApiCall\<close>: the URL is interpolated and validated, then the body is
  interpolated, all before the \<^verbatim>\<open>try\<close>; inside it \<^verbatim>\<open>fetch\<close> is called (the body is sent
  when the method is not \<^verbatim>\<open>GET\<close> and the body is not the empty string), and a failure of
  the request is returned as data.
\<close>

definition executeActionApiCall ::
  "platform \<Rightarrow> jsobj \<Rightarrow> jsobj \<Rightarrow> world \<Rightarrow> (js_error + jsobj) \<times> world" where
  "executeActionApiCall P config vars w =
     (case interpolateVariables P (config_string config ''url'') vars of
        Inl e \<Rightarrow> (Inl e, w)
      | Inr url \<Rightarrow>
          (case validateApiUrl P url of
             Inl e \<Rightarrow> (Inl e, w)
           | Inr u \<Rightarrow>
               let method = (if config_string config ''method'' = [] then ''GET''
                             else config_string config ''method'') in
               (case (if truthy (js_lookup config ''body'')
                      then bindE (interpolateVariables P
                                    (jsonStringify P (js_lookup config ''body'')) vars)
                             (\<lambda>b. Inr (Some b))
                      else Inr None) of
                  Inl e \<Rightarrow> (Inl e, w)
                | Inr body \<Rightarrow>
                    let w' = w\<lparr>requests := requests w @ [url]\<rparr> in
                    (case fetchJson P url method
                            (if method \<noteq> ''GET'' \<and> body \<noteq> Some [] then body else None) of
                       Inl msg \<Rightarrow>
                         (Inr [(''apiError'', JStr msg), (''apiSuccess'', JBool False)], w')
                     | Inr (data, status, ok) \<Rightarrow>
                         (Inr [(''apiResponse'', data), (''apiStatusCode'', JNum status),
                               (''apiSuccess'', JBool ok)], w')))))"


section \<open>Node executors of the persisted engine (workflowExecutor.service)\<close>

definition isNextNodeCondition :: "exec_context \<Rightarrow> bool" where
  "isNextNodeCondition ctx =
     (case find (\<lambda>n. Some (node_id n) = currentNodeId ctx) (nodes (workflow ctx)) of
        None \<Rightarrow> False
      | Some currentNode \<Rightarrow>
          list_ex
            (\<lambda>e. case find (\<lambda>n. node_id n = targetNodeId e) (nodes (workflow ctx)) of
                    None \<Rightarrow> False
                  | Some targetNode \<Rightarrow> startsWith (node_type targetNode) ''CONDITION_'')
            (outgoingEdges (workflow ctx) (node_id currentNode)))"

definition executeTriggerUserInput ::
  "jsobj \<Rightarrow> exec_context \<Rightarrow> world \<Rightarrow> (js_error + jsobj) \<times> exec_context \<times> world" where
  "executeTriggerUserInput config ctx w =
     (let ctx' = ctx\<lparr>waitingForInput := True\<rparr>;
          w' = (if config_string config ''prompt'' \<noteq> []
                then sendMessageToUser (conversationId ctx) (config_string config ''prompt'') w
                else w)
      in (Inr [(''waitingForInput'', JBool True)], ctx', w'))"

definition executeActionMessage ::
  "platform \<Rightarrow> jsobj \<Rightarrow> exec_context \<Rightarrow> world \<Rightarrow> (js_error + jsobj) \<times> exec_context \<times> world" where
  "executeActionMessage P config ctx w =
     (case interpolateVariables P (config_string config ''message'') (variables ctx) of
        Inl e \<Rightarrow> (Inl e, ctx, w)
      | Inr message \<Rightarrow>
          let w' = sendMessageToUser (conversationId ctx) message w;
              shouldWait =
                (js_lookup config ''waitForResponse'' = JBool True \<or>
                 (js_lookup config ''waitForResponse'' \<noteq> JBool False \<and> isNextNodeCondition ctx))
          in if shouldWait then
               (Inr [(''messageSent'', JBool True), (''waitingForInput'', JBool True)],
                ctx\<lparr>waitingForInput := True\<rparr>, w')
             else (Inr [(''messageSent'', JBool True)], ctx, w'))"

definition executeActionWaitForInput ::
  "platform \<Rightarrow> jsobj \<Rightarrow> exec_context \<Rightarrow> world \<Rightarrow> (js_error + jsobj) \<times> exec_context \<times> world" where
  "executeActionWaitForInput P config ctx w =
     (let ctx' = ctx\<lparr>waitingForInput := True,
                     expectedInputType :=
                       Some (if config_string config ''inputType'' = [] then ''text''
                             else config_string config ''inputType'')\<rparr>
      in if config_string config ''prompt'' \<noteq> [] then
           (case interpolateVariables P (config_string config ''prompt'') (variables ctx') of
              Inl e \<Rightarrow> (Inl e, ctx', w)
            | Inr prompt \<Rightarrow>
                (Inr [(''waitingForInput'', JBool True)], ctx',
                 sendMessageToUser (conversationId ctx') prompt w))
         else (Inr [(''waitingForInput'', JBool True)], ctx', w))"

definition executeConditionVariable :: "jsobj \<Rightarrow> jsobj \<Rightarrow> jsobj" where
  "executeConditionVariable config vars =
     (let v = js_lookup vars (config_string config ''variable'')
      in [(''conditionMet'', JBool (v \<noteq> JUndefined \<and> v \<noteq> JNull))])"

definition executeActionSetVariable :: "platform \<Rightarrow> jsobj \<Rightarrow> jsobj \<Rightarrow> js_error + jsobj" where
  "executeActionSetVariable P config vars =
     (let variableName = (if config_string config ''variableName'' = [] then ''customVar''
                          else config_string config ''variableName'');
          v = (if truthy (js_lookup config ''value'') then js_lookup config ''value''
               else JStr [])
      in bindE (js_ToString P v) (\<lambda>text.
         bindE (interpolateVariables P text vars) (\<lambda>interpolatedValue.
           Inr [(variableName, JStr interpolatedValue)])))"

text \<open>
  The node types whose executor is a call to an external capability or to the clock, or
  a string test no property below reads. Each of them receives the configuration and the
  variables, returns a result object or throws, and may send messages; none of them
  writes the context. They are the parameter \<open>external\<close>, which answers the messages
  sent and the result; what else such an executor does (an e-mail, an update of the
  conversation record) is outside the world kept here.
\<close>

definition external_node_types :: "string list" where
  "external_node_types =
     [''TRIGGER_WAIT'', ''TRIGGER_MESSAGE'', ''TRIGGER_INTENT'', ''CONDITION_KEYWORD'',
      ''CONDITION_REGEX'', ''CONDITION_EQUALS'', ''CONDITION_CONTAINS'',
      ''CONDITION_SENTIMENT'', ''CONDITION_TIME'', ''ACTION_VALIDATE_INPUT'',
      ''ACTION_EMAIL'', ''ACTION_ASSIGN_HUMAN'', ''ACTION_END_CONVERSATION'',
      ''AI_RESPONSE'', ''AI_SEARCH_KB'', ''AI_CLASSIFY_INTENT'', ''AI_EXTRACT_INFO'',
      ''AI_VALIDATE_FORMAT'']"

definition recognized_node_types :: "string list" where
  "recognized_node_types =
     [''TRIGGER_USER_INPUT'', ''CONDITION_VARIABLE'', ''ACTION_MESSAGE'',
      ''ACTION_WAIT_FOR_INPUT'', ''ACTION_SET_VARIABLE'', ''ACTION_API_CALL'']
     @ external_node_types"

text \<open>
  \<^verbatim>\<open>executeNode\<close> of the persisted engine: the \<^verbatim>\<open>switch\<close> on \<^verbatim>\<open>node.type\<close>. The
  \<^verbatim>\<open>default\<close> branch logs a warning and returns the empty object.
\<close>

definition executeNode ::
  "platform \<Rightarrow> wf_node \<Rightarrow> exec_context \<Rightarrow> world \<Rightarrow> (js_error + jsobj) \<times> exec_context \<times> world" where
  "executeNode P node ctx w =
     (let config = node_config node;
          t = node_type node;
          w0 = w\<lparr>applog := applog w @ [ExecutingNode (node_id node)]\<rparr>
      in if t = ''TRIGGER_USER_INPUT'' then executeTriggerUserInput config ctx w0
         else if t = ''CONDITION_VARIABLE'' then
           (Inr (executeConditionVariable config (variables ctx)), ctx, w0)
         else if t = ''ACTION_MESSAGE'' then executeActionMessage P config ctx w0
         else if t = ''ACTION_WAIT_FOR_INPUT'' then executeActionWaitForInput P config ctx w0
         else if t = ''ACTION_SET_VARIABLE'' then
           (executeActionSetVariable P config (variables ctx), ctx, w0)
         else if t = ''ACTION_API_CALL'' then
           (case executeActionApiCall P config (variables ctx) w0 of (r, w1) \<Rightarrow> (r, ctx, w1))
         else if t \<in> set external_node_types then
           (case external P t config (conversationId ctx) (variables ctx) of
              (sent, r) \<Rightarrow>
                (r, ctx, w0\<lparr>messages := messages w0 @ map (\<lambda>m. (conversationId ctx, m)) sent\<rparr>))
         else (Inr [], ctx, w0\<lparr>applog := applog w0 @ [UnknownNodeType t (node_id node)]\<rparr>))"


section \<open>The orchestrator of the persisted engine\<close>

text \<open>
  \<^verbatim>\<open>processNextNode\<close> calls itself for the next node, so a cyclic graph can keep it
  running for ever. The first argument bounds the number of nodes it may dispatch; the
  value \<open>None\<close> says that the bound was reached with the run still going. A falsy
  \<^verbatim>\<open>currentNodeId\<close> (\<^verbatim>\<open>null\<close> or the empty string) completes the run. Everything after
  the first log entry is inside the \<^verbatim>\<open>try\<close>, whose \<^verbatim>\<open>catch\<close> logs the error and rethrows
  it, once in every active call.
\<close>

definition completeRun :: "exec_context \<Rightarrow> world \<Rightarrow> (js_error + unit) \<times> world" where
  "completeRun ctx w =
     (case markExecutionCompleted (executionId ctx) w of
        (Inl e, w') \<Rightarrow> (Inl e, w')
      | (Inr u, w') \<Rightarrow> (Inr (), deleteContext (conversationId ctx) w'))"

definition logAndRethrow :: "exec_context \<Rightarrow> js_error \<Rightarrow> world \<Rightarrow> (js_error + unit) \<times> world" where
  "logAndRethrow ctx e w = (Inl e, addExecutionLog (executionId ctx) (LogError e) w)"

fun processNextNode ::
  "nat \<Rightarrow> platform \<Rightarrow> exec_context \<Rightarrow> world \<Rightarrow> ((js_error + unit) \<times> world) option" where
  "processNextNode 0 P ctx w = None"
| "processNextNode (Suc fuel) P ctx w =
     (case currentNodeId ctx of
        None \<Rightarrow> Some (completeRun ctx w)
      | Some nid \<Rightarrow>
          if nid = [] then Some (completeRun ctx w)
          else
            case find (\<lambda>n. node_id n = nid) (nodes (workflow ctx)) of
              None \<Rightarrow>
                Some (Inl (WorkflowExecutorError (''Node '' @ nid @ '' not found'') 404), w)
            | Some node \<Rightarrow>
                let w1 = addExecutionLog (executionId ctx)
                           (LogExecuting (node_label node) (node_type node)) w
                in case executeNode P node ctx w1 of
                     (Inl e, ctx1, w2) \<Rightarrow> Some (logAndRethrow ctx e w2)
                   | (Inr result, ctx1, w2) \<Rightarrow>
                       let ctx2 = ctx1\<lparr>variables := obj_merge (variables ctx1) result\<rparr>
                       in if waitingForInput ctx2 then
                            Some (Inr (),
                                  saveContext ctx2
                                    (addExecutionLog (executionId ctx) LogWaiting w2))
                          else
                            case findNextNode P node ctx2 of
                              Inl e \<Rightarrow> Some (logAndRethrow ctx e w2)
                            | Inr nextNodeId \<Rightarrow>
                                if nextNodeId = None \<or> nextNodeId = Some [] then
                                  (case completeRun ctx2 w2 of
                                     (Inl e, w3) \<Rightarrow> Some (logAndRethrow ctx e w3)
                                   | (Inr u, w3) \<Rightarrow> Some (Inr (), w3))
                                else
                                  let ctx3 = ctx2\<lparr>currentNodeId := nextNodeId\<rparr>;
                                      w3 = saveContext ctx3 w2
                                  in case processNextNode fuel P ctx3 w3 of
                                       None \<Rightarrow> None
                                     | Some (Inl e, w4) \<Rightarrow> Some (logAndRethrow ctx e w4)
                                     | Some (Inr u, w4) \<Rightarrow> Some (Inr (), w4))"

text \<open>
  \<^verbatim>\<open>processNextNode(context).catch(error => markExecutionFailed(...))\<close>, the burst both
  entry points start without awaiting it.
\<close>

definition runBurst :: "nat \<Rightarrow> platform \<Rightarrow> exec_context \<Rightarrow> world \<Rightarrow> world option" where
  "runBurst fuel P ctx w =
     (case processNextNode fuel P ctx w of
        None \<Rightarrow> None
      | Some (Inr u, w') \<Rightarrow> Some w'
      | Some (Inl e, w') \<Rightarrow> Some (snd (markExecutionFailed (executionId ctx) e w')))"

section \<open>The distributed lock (lib/redisLock)\<close>

definition acquire :: "string \<Rightarrow> string \<Rightarrow> world \<Rightarrow> bool \<times> world" where
  "acquire lockKey lockValue w =
     (if locks w lockKey = None then (True, w\<lparr>locks := (locks w)(lockKey \<mapsto> lockValue)\<rparr>)
      else (False, w))"

definition release :: "string \<Rightarrow> string \<Rightarrow> world \<Rightarrow> world" where
  "release lockKey lockValue w =
     (if locks w lockKey = Some lockValue then w\<lparr>locks := (locks w)(lockKey := None)\<rparr>
      else w)"

text \<open>The acquisition loop of \<^verbatim>\<open>withLock\<close>: up to \<open>retries\<close> attempts.\<close>

fun acquireWithRetries :: "nat \<Rightarrow> string \<Rightarrow> string \<Rightarrow> world \<Rightarrow> bool \<times> world" where
  "acquireWithRetries 0 lockKey lockValue w = (False, w)"
| "acquireWithRetries (Suc n) lockKey lockValue w =
     (case acquire lockKey lockValue w of
        (True, w') \<Rightarrow> (True, w')
      | (False, w') \<Rightarrow> acquireWithRetries n lockKey lockValue w')"

definition withLock ::
  "nat \<Rightarrow> string \<Rightarrow> string \<Rightarrow> (world \<Rightarrow> (js_error + 'a) \<times> world) \<Rightarrow> world
     \<Rightarrow> (js_error + 'a) \<times> world" where
  "withLock retries lockValue resource fn w =
     (case acquireWithRetries retries (''lock:'' @ resource) lockValue w of
        (False, w') \<Rightarrow>
          (Inl (JsError (''Failed to acquire lock for resource: '' @ resource)), w')
      | (True, w') \<Rightarrow>
          (case fn w' of (r, w'') \<Rightarrow> (r, release (''lock:'' @ resource) lockValue w'')))"


section \<open>Resuming on an inbound message, and starting a run\<close>

record validation_result =
  vr_valid :: bool
  vr_errorMessage :: "string option"
  vr_extractedData :: jsval

definition backslash :: char where
  "backslash = char_of (92::nat)"

text \<open>
  The two literal patterns of \<^verbatim>\<open>validateInput\<close>,
  \<^verbatim>\<open>^[^\s@]+@[^\s@]+\.[^\s@]+$\<close> and \<^verbatim>\<open>^\+?[\d\s\-()]+$\<close>.
\<close>

definition email_pattern :: string where
  "email_pattern =
     ''^[^'' @ [backslash] @ ''s@]+@[^'' @ [backslash] @ ''s@]+'' @ [backslash] @ ''.[^''
     @ [backslash] @ ''s@]+$''"

definition phone_pattern :: string where
  "phone_pattern =
     ''^'' @ [backslash] @ ''+?['' @ [backslash] @ ''d'' @ [backslash] @ ''s'' @ [backslash]
     @ ''-()]+$''"

definition or_default :: "string option \<Rightarrow> string \<Rightarrow> string" where
  "or_default v d = (case v of None \<Rightarrow> d | Some s \<Rightarrow> if s = [] then d else s)"

text \<open>
  \<^verbatim>\<open>validateInput\<close>. \<^verbatim>\<open>new RegExp(undefined)\<close> is the empty pattern \<^verbatim>\<open>(?:)\<close>; an invalid
  pattern makes the constructor throw.
\<close>

definition validateInput ::
  "platform \<Rightarrow> string \<Rightarrow> input_validation \<Rightarrow> js_error + validation_result" where
  "validateInput P input validation =
     (if iv_type validation = Some ''regex'' then
        bindE (regexTest P (case iv_pattern validation of None \<Rightarrow> ''(?:)'' | Some p \<Rightarrow> p) input)
          (\<lambda>ok. Inr \<lparr>vr_valid = ok,
                     vr_errorMessage =
                       Some (or_default (iv_errorMessage validation) ''Invalid format''),
                     vr_extractedData = JStr input\<rparr>)
      else if iv_type validation = Some ''email'' then
        bindE (regexTest P email_pattern input)
          (\<lambda>ok. Inr \<lparr>vr_valid = ok,
                     vr_errorMessage =
                       Some (or_default (iv_errorMessage validation)
                               ''Please enter a valid email address''),
                     vr_extractedData = JStr input\<rparr>)
      else if iv_type validation = Some ''phone'' then
        bindE (regexTest P phone_pattern input)
          (\<lambda>ok. Inr \<lparr>vr_valid = ok,
                     vr_errorMessage =
                       Some (or_default (iv_errorMessage validation)
                               ''Please enter a valid phone number''),
                     vr_extractedData = JStr input\<rparr>)
      else Inr \<lparr>vr_valid = True, vr_errorMessage = None, vr_extractedData = JStr input\<rparr>)"

record handle_result =
  shouldRespond :: bool
  response :: "string option"
  continueWorkflow :: bool

text \<open>
  The function \<^verbatim>\<open>handleMessageInWorkflow\<close> runs under the lock. It answers \<^verbatim>\<open>null\<close>
  (\<open>None\<close>), a validation error to be sent to the user, or that the workflow goes on; in
  the last case it has saved the context and started the burst, which the second
  component of the answer names.
\<close>

definition handleMessageLocked ::
  "platform \<Rightarrow> string \<Rightarrow> string \<Rightarrow> jsval \<Rightarrow> world
     \<Rightarrow> (js_error + handle_result option \<times> exec_context option) \<times> world" where
  "handleMessageLocked P cid message messageMetadata w =
     (case getContext cid w of
        None \<Rightarrow> (Inr (None, None), w)
      | Some context \<Rightarrow>
          if \<not> waitingForInput context then (Inr (None, None), w)
          else
            let vars1 = obj_set ''lastMessageMetadata'' messageMetadata
                          (obj_set ''lastUserMessage'' (JStr message) (variables context))
            in case (case expectedInputValidation context of
                       None \<Rightarrow> Inr (None, vars1)
                     | Some validation \<Rightarrow>
                         bindE (validateInput P message validation) (\<lambda>v.
                           if \<not> vr_valid v then
                             Inr (Some (or_default (vr_errorMessage v)
                                          ''Invalid input. Please try again.''), vars1)
                           else Inr (None,
                                     obj_set ''validatedInput'' (vr_extractedData v) vars1))) of
                 Inl e \<Rightarrow> (Inl e, w)
               | Inr (Some reply, vars2) \<Rightarrow>
                   (Inr (Some \<lparr>shouldRespond = True, response = Some reply,
                                continueWorkflow = False\<rparr>, None), w)
               | Inr (None, vars2) \<Rightarrow>
                   let context' = context\<lparr>variables := vars2, waitingForInput := False,
                                          expectedInputType := None,
                                          expectedInputValidation := None\<rparr>
                   in (Inr (Some \<lparr>shouldRespond = False, response = None,
                                   continueWorkflow = True\<rparr>, Some context'),
                       saveContext context' w))"

definition handleMessageInWorkflow ::
  "platform \<Rightarrow> string \<Rightarrow> string \<Rightarrow> string \<Rightarrow> jsval \<Rightarrow> world
     \<Rightarrow> (js_error + handle_result option \<times> exec_context option) \<times> world" where
  "handleMessageInWorkflow P lockValue cid message messageMetadata w =
     withLock 5 lockValue (''workflow:exec:'' @ cid)
       (handleMessageLocked P cid message messageMetadata) w"

text \<open>
  \<^verbatim>\<open>initializeWorkflowForConversation\<close>; \<open>eid\<close> is the id the database gives the new
  execution record. The answer is the context already there, or the new execution
  together with the context whose burst has been started.
\<close>

datatype init_result = AlreadyRunning exec_context | Started string exec_context

definition initializeWorkflowForConversation ::
  "string \<Rightarrow> string \<Rightarrow> string \<Rightarrow> jsobj option \<Rightarrow> world \<Rightarrow> (js_error + init_result) \<times> world" where
  "initializeWorkflowForConversation eid cid wid initialData w =
     (case getContext cid w of
        Some existingContext \<Rightarrow> (Inr (AlreadyRunning existingContext), w)
      | None \<Rightarrow>
          (case (case workflows w wid of
                   None \<Rightarrow> None
                 | Some row \<Rightarrow> if wr_isActive row \<and> \<not> wr_deleted row then Some row else None) of
             None \<Rightarrow> (Inl (WorkflowExecutorError ''Workflow not found or inactive'' 404), w)
           | Some row \<Rightarrow>
               let w1 = w\<lparr>executions := (executions w)(eid \<mapsto>
                            \<lparr>ex_workflowId = wid, ex_conversationId = cid, ex_status = RUNNING,
                             ex_error = None, ex_logs = []\<rparr>)\<rparr>
               in case find (\<lambda>n. \<not> list_ex (\<lambda>e. targetNodeId e = node_id n)
                                       (edges (wr_graph row)))
                         (nodes (wr_graph row)) of
                    None \<Rightarrow>
                      (Inl (WorkflowExecutorError ''No entry node found in workflow'' 400), w1)
                  | Some entryNode \<Rightarrow>
                      let context = \<lparr>conversationId = cid, workflowId = wid, executionId = eid,
                                     currentNodeId = Some (node_id entryNode),
                                     variables = (case initialData of None \<Rightarrow> [] | Some d \<Rightarrow> d),
                                     waitingForInput = False, expectedInputType = None,
                                     expectedInputValidation = None,
                                     workflow = wr_graph row\<rparr>
                      in (Inr (Started eid context), saveContext context w1)))"


section \<open>The loop detector (lib/workflowLoopDetector)\<close>

record node_visit =
  nv_timestamp :: int
  nv_count :: nat

record loop_detector =
  visits :: "(string \<times> node_visit) list"
  maxVisitsPerNode :: nat
  maxTotalNodes :: nat
  startTime :: int
  maxExecutionTime :: int

text \<open>The constructor with its defaults; \<open>now\<close> is the reading of the clock.\<close>

definition newLoopDetector :: "nat option \<Rightarrow> nat option \<Rightarrow> int option \<Rightarrow> int \<Rightarrow> loop_detector" where
  "newLoopDetector optVisits optNodes optTime now =
     \<lparr>visits = [],
      maxVisitsPerNode = (case optVisits of None \<Rightarrow> 10 | Some n \<Rightarrow> n),
      maxTotalNodes = (case optNodes of None \<Rightarrow> 100 | Some n \<Rightarrow> n),
      startTime = now,
      maxExecutionTime = (case optTime of None \<Rightarrow> 300000 | Some t \<Rightarrow> t)\<rparr>"

fun visits_set :: "string \<Rightarrow> node_visit \<Rightarrow> (string \<times> node_visit) list \<Rightarrow> (string \<times> node_visit) list" where
  "visits_set k v [] = [(k, v)]"
| "visits_set k v (kv # rest) =
     (if fst kv = k then (k, v) # rest else kv # visits_set k v rest)"

text \<open>
  \<^verbatim>\<open>visitNode(nodeId)\<close>. The count of a node already in the map is incremented in place
  before it is compared with the limit, so the detector keeps the incremented count
  also when it throws.
\<close>

definition visitNode :: "int \<Rightarrow> string \<Rightarrow> loop_detector \<Rightarrow> (js_error + unit) \<times> loop_detector" where
  "visitNode now nodeId d =
     (if now - startTime d > maxExecutionTime d then
        (Inl (WorkflowLoopError (ExecutionTimeout (maxExecutionTime d))), d)
      else if length (visits d) \<ge> maxTotalNodes d then
        (Inl (WorkflowLoopError (NodeLimitExceeded (length (visits d)))), d)
      else
        case map_of (visits d) nodeId of
          Some existing \<Rightarrow>
            let existing' = \<lparr>nv_timestamp = now, nv_count = nv_count existing + 1\<rparr>;
                d' = d\<lparr>visits := visits_set nodeId existing' (visits d)\<rparr>
            in if nv_count existing' > maxVisitsPerNode d then
                 (Inl (WorkflowLoopError (InfiniteLoop nodeId (nv_count existing'))), d')
               else (Inr (), d')
        | None \<Rightarrow>
            (Inr (), d\<lparr>visits := visits_set nodeId \<lparr>nv_timestamp = now, nv_count = 1\<rparr>
                                    (visits d)\<rparr>))"

section \<open>The retry loop of the synchronous engine (workflow.service)\<close>

text \<open>
  \<^verbatim>\<open>executeNode\<close> of \<^verbatim>\<open>workflow.service\<close> runs a node inside a loop of attempts. What
  the loop does is recorded as a trace: each call of \<^verbatim>\<open>executeNodeByType\<close>, each pause
  between attempts with its delay in milliseconds, and each entry handed to the
  workflow logger. The executors of the recognized node types live in
  \<^verbatim>\<open>workflow.executors\<close> and call external capabilities; \<open>executors P\<close> gives, for a
  node type, configuration, variables and attempt number, how that attempt settles as
  the loop sees it (with \<^verbatim>\<open>config.timeout\<close> set, after the race against the timer).
\<close>

datatype sync_event =
    EvAttempt string nat
  | EvSleep nat
  | EvNodeSuccess string
  | EvVariableSet string string
  | EvNodeError string js_error
  | EvWarnContinue string
  | EvWarnRetry string nat

record sync_state =
  ws_variables :: jsobj
  ws_trace :: "sync_event list"

definition ws_node_types :: "string list" where
  "ws_node_types =
     [''TRIGGER_WAIT'', ''TRIGGER_INACTIVITY'', ''CONDITION_KEYWORD'', ''CONDITION_SENTIMENT'',
      ''CONDITION_TIME'', ''CONDITION_COMPARE'', ''ACTION_MESSAGE'', ''ACTION_EMAIL'',
      ''ACTION_API_CALL'', ''ACTION_ASSIGN_HUMAN'', ''ACTION_VARIABLE_SET'', ''ACTION_DELAY'',
      ''AI_RESPONSE'', ''AI_SEARCH_KB'', ''AI_CLASSIFY_INTENT'', ''AI_SUMMARIZE'', ''FLOW_LOOP'',
      ''DATA_TRANSFORM'', ''DATA_VALIDATE'']"

definition executeNodeByType :: "platform \<Rightarrow> wf_node \<Rightarrow> jsobj \<Rightarrow> nat \<Rightarrow> js_error + node_result" where
  "executeNodeByType P node vars attempt =
     (if node_type node \<in> set ws_node_types then
        executors P (node_type node) (node_config node) vars attempt
      else Inl (WorkflowError (''Unknown node type: '' @ node_type node) 400))"

definition error_message :: "platform \<Rightarrow> js_error \<Rightarrow> string" where
  "error_message P e =
     (case e of
        JsError m \<Rightarrow> m
      | WorkflowExecutorError m c \<Rightarrow> m
      | WorkflowError m c \<Rightarrow> m
      | _ \<Rightarrow> platformErrorMessage P e)"


text \<open>
  \<^verbatim>\<open>config.retryOnError ? (config.maxRetries || 3) : 1\<close>. A configuration is stored as
  it was submitted, so \<open>maxRetries\<close> is whatever JSON value the configuration holds
  there: a number, but also a string such as \<^verbatim>\<open>"2"\<close> or the value \<^verbatim>\<open>true\<close>.
\<close>

definition maxRetriesOf :: "jsobj \<Rightarrow> jsval" where
  "maxRetriesOf config =
     (if truthy (js_lookup config ''retryOnError'') then
        (if truthy (js_lookup config ''maxRetries'') then js_lookup config ''maxRetries''
         else JNum (Fin 3))
      else JNum (Fin 1))"

text \<open>\<^verbatim>\<open>a >= b\<close> on numbers: false when either is \<^verbatim>\<open>NaN\<close>, else the negation of \<^verbatim>\<open>a < b\<close>.\<close>

definition num_ge :: "jsnum \<Rightarrow> jsnum \<Rightarrow> bool" where
  "num_ge a b = (a \<noteq> NaN \<and> b \<noteq> NaN \<and> \<not> num_less a b)"

definition onAttemptSuccess :: "wf_node \<Rightarrow> node_result \<Rightarrow> sync_state \<Rightarrow> sync_state" where
  "onAttemptSuccess node nodeResult st =
     (let st1 = st\<lparr>ws_trace := ws_trace st @ [EvNodeSuccess (node_id node)]\<rparr>;
          saveResultAs = config_string (node_config node) ''saveResultAs''
      in case nr_data nodeResult of
           None \<Rightarrow> st1
         | Some d \<Rightarrow>
             let st2 = (if saveResultAs \<noteq> [] then
                          st1\<lparr>ws_variables := js_assign saveResultAs (JObj d) (ws_variables st1),
                              ws_trace := ws_trace st1 @ [EvVariableSet (node_id node) saveResultAs]\<rparr>
                        else st1)
             in st2\<lparr>ws_variables := object_assign (ws_variables st2) d\<rparr>)"

text \<open>
  The \<^verbatim>\<open>while (attempts < maxRetries)\<close> loop, \<open>maxRetries\<close> being the number the
  comparison converts the configured value to. It answers the node result, the error it
  rethrows, or no result when the body never ran and \<^verbatim>\<open>nodeResult\<close> was left unassigned.
  The pause before the next attempt is \<^verbatim>\<open>1000 * attempts\<close> milliseconds. When
  \<open>maxRetries\<close> is \<^verbatim>\<open>Infinity\<close> and every attempt fails the loop never ends; \<open>None\<close>
  is that outcome.
\<close>

partial_function (option) ws_retryLoop ::
  "platform \<Rightarrow> wf_node \<Rightarrow> jsnum \<Rightarrow> nat \<Rightarrow> sync_state
     \<Rightarrow> ((js_error + node_result option) \<times> sync_state) option" where
  "ws_retryLoop P node maxRetries attempts st =
     (if num_less (Fin (of_nat attempts)) maxRetries then
        let attempts' = attempts + 1;
            st1 = st\<lparr>ws_trace := ws_trace st @ [EvAttempt (node_id node) attempts']\<rparr>
        in case executeNodeByType P node (ws_variables st1) attempts' of
             Inr nodeResult \<Rightarrow>
               Some (Inr (Some nodeResult), onAttemptSuccess node nodeResult st1)
           | Inl error \<Rightarrow>
               if num_ge (Fin (of_nat attempts')) maxRetries then
                 let st2 = st1\<lparr>ws_trace := ws_trace st1 @ [EvNodeError (node_id node) error]\<rparr>
                 in if truthy (js_lookup (node_config node) ''continueOnError'') then
                      Some (Inr (Some \<lparr>nr_success = False, nr_data = None,
                                        nr_error = Some (error_message P error),
                                        nr_shouldContinue = True\<rparr>),
                            st2\<lparr>ws_trace := ws_trace st2 @ [EvWarnContinue (node_id node)]\<rparr>)
                    else Some (Inl error, st2)
               else
                 ws_retryLoop P node maxRetries attempts'
                   (st1\<lparr>ws_trace := ws_trace st1 @
                          [EvWarnRetry (node_id node) attempts', EvSleep (1000 * attempts')]\<rparr>)
      else Some (Inr None, st))"

text \<open>
  What \<^verbatim>\<open>executeNode\<close> does with the outcome of the loop: an error leaves
  \<^verbatim>\<open>executeNode\<close> and every call above it (none of them catches), so that
  \<^verbatim>\<open>executeWorkflow\<close> marks the run \<^verbatim>\<open>FAILED\<close>; reading \<^verbatim>\<open>shouldContinue\<close> of an unassigned
  result is a \<^verbatim>\<open>TypeError\<close>; a result without \<^verbatim>\<open>shouldContinue\<close> ends this branch; any
  other result lets the engine go on to the outgoing edges.
\<close>

datatype ws_continuation = Throws js_error | ReturnsWithoutRouting | RoutesToOutgoingEdges

definition ws_afterAttempts :: "js_error + node_result option \<Rightarrow> ws_continuation" where
  "ws_afterAttempts r =
     (case r of
        Inl e \<Rightarrow> Throws e
      | Inr None \<Rightarrow> Throws TypeError
      | Inr (Some nodeResult) \<Rightarrow>
          if \<not> nr_shouldContinue nodeResult then ReturnsWithoutRouting
          else RoutesToOutgoingEdges)"

text \<open>
  Lines 736 to 823 of \<^verbatim>\<open>executeNode\<close>: the loop from its initial state. The comparison
  \<^verbatim>\<open>attempts < maxRetries\<close> converts \<open>maxRetries\<close> to a number each time it is evaluated;
  the conversion of a JSON value gives the same number each time, and where it throws it
  does so at the first evaluation, before any attempt and outside the \<^verbatim>\<open>try\<close>.
\<close>

definition ws_executeAttempts ::
  "platform \<Rightarrow> wf_node \<Rightarrow> sync_state
     \<Rightarrow> ((js_error + node_result option) \<times> sync_state) option" where
  "ws_executeAttempts P node st =
     (case js_ToNumber P (maxRetriesOf (node_config node)) of
        Inl e \<Rightarrow> Some (Inl e, st)
      | Inr maxRetries \<Rightarrow> ws_retryLoop P node maxRetries 0 st)"


section \<open>Notions used to state the properties\<close>

text \<open>
  An edge is taken when it has no condition or its condition evaluates to \<^verbatim>\<open>true\<close>; it
  raises when evaluating its condition throws. \<open>first_match\<close> is the routing rule in the
  words of the specification: the target of the first edge, in definition order, that is
  taken.
\<close>

definition edge_taken :: "platform \<Rightarrow> jsobj \<Rightarrow> wf_edge \<Rightarrow> bool" where
  "edge_taken P vars e =
     (if truthy (condition e) then evaluateCondition P (condition e) vars = Inr True else True)"

definition edge_raises :: "platform \<Rightarrow> jsobj \<Rightarrow> wf_edge \<Rightarrow> bool" where
  "edge_raises P vars e = (truthy (condition e) \<and> isl (evaluateCondition P (condition e) vars))"

definition first_match :: "platform \<Rightarrow> jsobj \<Rightarrow> wf_edge list \<Rightarrow> string option" where
  "first_match P vars out = map_option targetNodeId (find (edge_taken P vars) out)"

text \<open>An edge is refused when it has a condition and the condition evaluates to \<^verbatim>\<open>false\<close>.\<close>

definition edge_refused :: "platform \<Rightarrow> jsobj \<Rightarrow> wf_edge \<Rightarrow> bool" where
  "edge_refused P vars e =
     (truthy (condition e) \<and> evaluateCondition P (condition e) vars = Inr False)"

text \<open>The parts of a condition, as the destructuring reads them.\<close>

definition condition_part :: "jsval \<Rightarrow> string \<Rightarrow> jsval" where
  "condition_part cond key = (case js_prop cond key of Inl e \<Rightarrow> JUndefined | Inr v \<Rightarrow> v)"

text \<open>
  A value that \<^verbatim>\<open>String\<close> and \<^verbatim>\<open>Number\<close> convert without throwing: anything but an
  object with an own \<^verbatim>\<open>toString\<close> property, or an array that holds one.
\<close>

fun coercible :: "jsval \<Rightarrow> bool" where
  "coercible (JArr xs) = list_all (\<lambda>x. x = JUndefined \<or> x = JNull \<or> coercible x) xs"
| "coercible (JObj kvs) = (map_of kvs ''toString'' = None)"
| "coercible v = True"

text \<open>The value \<^verbatim>\<open>variables[field]\<close> a condition reads.\<close>

definition condition_subject :: "platform \<Rightarrow> jsval \<Rightarrow> jsobj \<Rightarrow> jsval" where
  "condition_subject P cond vars =
     (case js_ToString P (condition_part cond ''field'') of
        Inl e \<Rightarrow> JUndefined
      | Inr key \<Rightarrow> js_lookup vars key)"

text \<open>
  The node \<^verbatim>\<open>processNextNode\<close> is about to run, and the dispatch of that node: the entry in
  the execution log, then \<^verbatim>\<open>executeNode\<close>.
\<close>

definition currentNode :: "exec_context \<Rightarrow> wf_node option" where
  "currentNode ctx =
     (case currentNodeId ctx of
        None \<Rightarrow> None
      | Some nid \<Rightarrow> if nid = [] then None else find (\<lambda>n. node_id n = nid) (nodes (workflow ctx)))"

definition dispatchCurrent ::
  "platform \<Rightarrow> exec_context \<Rightarrow> world \<Rightarrow> wf_node \<Rightarrow> (js_error + jsobj) \<times> exec_context \<times> world" where
  "dispatchCurrent P ctx w node =
     executeNode P node ctx
       (addExecutionLog (executionId ctx) (LogExecuting (node_label node) (node_type node)) w)"

text \<open>
  Two graphs for the examples: from \<open>A\<close>, a first edge to \<open>B\<close> guarded by
  \<^verbatim>\<open>intent equals "billing"\<close>, in the second graph by \<^verbatim>\<open>reply contains "yes"\<close>, and a
  second, unguarded edge to \<open>C\<close>.
\<close>

definition example_node :: "string \<Rightarrow> string \<Rightarrow> jsobj \<Rightarrow> wf_node" where
  "example_node nid t config =
     \<lparr>node_id = nid, node_type = t, node_config = config, node_label = nid\<rparr>"

definition example_edge :: "string \<Rightarrow> string \<Rightarrow> jsval \<Rightarrow> wf_edge" where
  "example_edge src tgt cond =
     \<lparr>edge_id = src @ ''-'' @ tgt, sourceNodeId = src, targetNodeId = tgt, condition = cond\<rparr>"

definition branching_graph :: wf_graph where
  "branching_graph =
     \<lparr>nodes = [example_node ''A'' ''CONDITION_VARIABLE'' [],
               example_node ''B'' ''CONDITION_VARIABLE'' [],
               example_node ''C'' ''CONDITION_VARIABLE'' []],
      edges = [example_edge ''A'' ''B''
                 (JObj [(''field'', JStr ''intent''), (''operator'', JStr ''equals''),
                        (''value'', JStr ''billing'')]),
               example_edge ''A'' ''C'' JUndefined]\<rparr>"

definition guarded_graph :: wf_graph where
  "guarded_graph =
     \<lparr>nodes = [example_node ''A'' ''CONDITION_VARIABLE'' [],
               example_node ''B'' ''CONDITION_VARIABLE'' [],
               example_node ''C'' ''CONDITION_VARIABLE'' []],
      edges = [example_edge ''A'' ''B''
                 (JObj [(''field'', JStr ''reply''), (''operator'', JStr ''contains''),
                        (''value'', JStr ''yes'')]),
               example_edge ''A'' ''C'' JUndefined]\<rparr>"

definition example_context :: "wf_graph \<Rightarrow> string \<Rightarrow> jsobj \<Rightarrow> exec_context" where
  "example_context g nid vars =
     \<lparr>conversationId = ''conv1'', workflowId = ''wf1'', executionId = ''exec1'',
      currentNodeId = Some nid, variables = vars, waitingForInput = False,
      expectedInputType = None, expectedInputValidation = None, workflow = g\<rparr>"

text \<open>
  A platform for the examples. On the inputs the examples give it, it answers as Node.js
  does (no placeholder to replace, a text without \<^verbatim>\<open>@\<close> that is no e-mail address, the
  host names of two URLs); elsewhere its answers are arbitrary.
\<close>

definition example_platform :: platform where
  "example_platform =
     \<lparr>numToString = (\<lambda>n. ''NaN''),
      stringToNumber = (\<lambda>s. NaN),
      nativeToString = (\<lambda>k. ''[object Object]''),
      regexTest = (\<lambda>pattern input. Inr (pattern \<noteq> email_pattern \<or> CHR ''@'' \<in> set input)),
      regexReplaceAll = (\<lambda>pattern replacement text. Inr text),
      parseUrl = (\<lambda>url.
        if url = ''http://127.0.0.1/admin''
        then Some \<lparr>url_protocol = ''http:'', url_hostname = ''127.0.0.1''\<rparr>
        else if url = ''http://[::1]/admin''
        then Some \<lparr>url_protocol = ''http:'', url_hostname = ''[::1]''\<rparr>
        else None),
      platformErrorMessage = (\<lambda>e. ''TypeError''),
      jsonStringify = (\<lambda>v. ''null''),
      fetchJson = (\<lambda>url method body. Inl ''fetch failed''),
      external = (\<lambda>t config cid vars. ([], Inr [])),
      executors = (\<lambda>t config vars attempt. Inl (JsError ''service unavailable''))\<rparr>"

text \<open>
  The number of node dispatches the application log records and the nodes dispatched, in
  order; a context suspended on an e-mail address, and a world holding one conversation
  and its execution record.
\<close>

fun is_dispatch :: "log_event \<Rightarrow> bool" where
  "is_dispatch (ExecutingNode nid) = True"
| "is_dispatch (UnknownNodeType t nid) = False"

definition dispatch_count :: "world \<Rightarrow> nat" where
  "dispatch_count w = length (filter is_dispatch (applog w))"

fun dispatched_node :: "log_event \<Rightarrow> string list" where
  "dispatched_node (ExecutingNode nid) = [nid]"
| "dispatched_node (UnknownNodeType t nid) = []"

definition dispatches :: "world \<Rightarrow> string list" where
  "dispatches w = concat (map dispatched_node (applog w))"

definition suspended_context :: exec_context where
  "suspended_context =
     (example_context branching_graph ''A'' [])
       \<lparr>waitingForInput := True,
        expectedInputValidation :=
          Some \<lparr>iv_type = Some ''email'', iv_pattern = None, iv_errorMessage = None\<rparr>\<rparr>"

definition example_world :: "exec_context option \<Rightarrow> world" where
  "example_world saved =
     \<lparr>store = (\<lambda>k. if k = ''conv1'' then saved else None),
      locks = (\<lambda>k. None),
      executions = (\<lambda>k. if k = ''exec1''
                          then Some \<lparr>ex_workflowId = ''wf1'', ex_conversationId = ''conv1'',
                                     ex_status = RUNNING, ex_error = None, ex_logs = []\<rparr>
                          else None),
      workflows = (\<lambda>k. None),
      messages = [], requests = [], applog = []\<rparr>"

text \<open>
  The burst an answer of \<^verbatim>\<open>handleMessageInWorkflow\<close> has started, if any; and a graph
  whose entry node sends a greeting and leads to a node that waits for the user's input.
\<close>

definition started_burst ::
  "js_error + handle_result option \<times> exec_context option \<Rightarrow> exec_context option" where
  "started_burst r = (case r of Inl e \<Rightarrow> None | Inr (answer, burst) \<Rightarrow> burst)"

definition asking_graph :: wf_graph where
  "asking_graph =
     \<lparr>nodes = [example_node ''greet'' ''ACTION_MESSAGE''
                 [(''message'', JStr ''Hello''), (''waitForResponse'', JBool False)],
               example_node ''ask'' ''TRIGGER_USER_INPUT'' [(''prompt'', JStr ''Your e-mail?'')]],
      edges = [example_edge ''greet'' ''ask'' JUndefined]\<rparr>"

text \<open>
  What a trace of the retry loop shows: the attempt numbers and the pauses, in order.
  \<open>failed_attempts\<close> is the trace of \<open>k\<close> further attempts that all fail, the last of
  them final; \<open>exhausted_outcome\<close> and \<open>exhausted_events\<close> are what the loop does after
  the final failure, depending on \<^verbatim>\<open>continueOnError\<close>.
\<close>

fun attempts_of :: "sync_event list \<Rightarrow> nat list" where
  "attempts_of [] = []"
| "attempts_of (EvAttempt nid k # es) = k # attempts_of es"
| "attempts_of (e # es) = attempts_of es"

fun pauses_of :: "sync_event list \<Rightarrow> nat list" where
  "pauses_of [] = []"
| "pauses_of (EvSleep ms # es) = ms # pauses_of es"
| "pauses_of (e # es) = pauses_of es"

fun failed_attempts :: "string \<Rightarrow> (nat \<Rightarrow> js_error) \<Rightarrow> nat \<Rightarrow> nat \<Rightarrow> sync_event list" where
  "failed_attempts nid err a 0 = []"
| "failed_attempts nid err a (Suc 0) = [EvAttempt nid (a + 1), EvNodeError nid (err (a + 1))]"
| "failed_attempts nid err a (Suc (Suc k)) =
     [EvAttempt nid (a + 1), EvWarnRetry nid (a + 1), EvSleep (1000 * (a + 1))]
     @ failed_attempts nid err (a + 1) (Suc k)"

definition exhausted_outcome :: "platform \<Rightarrow> wf_node \<Rightarrow> js_error \<Rightarrow> js_error + node_result option" where
  "exhausted_outcome P node e =
     (if truthy (js_lookup (node_config node) ''continueOnError'') then
        Inr (Some \<lparr>nr_success = False, nr_data = None, nr_error = Some (error_message P e),
                   nr_shouldContinue = True\<rparr>)
      else Inl e)"

definition exhausted_events :: "wf_node \<Rightarrow> sync_event list" where
  "exhausted_events node =
     (if truthy (js_lookup (node_config node) ''continueOnError'')
      then [EvWarnContinue (node_id node)] else [])"


definition unknown_node :: "jsobj \<Rightarrow> wf_node" where
  "unknown_node config = example_node ''wait'' ''ACTION_WAIT_FOR_INPUT'' config"

definition unknown_type_error :: "wf_node \<Rightarrow> js_error" where
  "unknown_type_error node = WorkflowError (''Unknown node type: '' @ node_type node) 400"

text \<open>
  A graph whose entry node \<open>S\<close> leads into two nodes \<open>A\<close> and \<open>B\<close> that lead to each
  other with no exit, a graph whose only node calls a URL together with a world that has
  it as the active workflow \<open>wf1\<close>, the calling of \<^verbatim>\<open>visitNode\<close> once per node of a
  sequence, and the host names the SSRF guard refuses.
\<close>

definition cycle_graph :: wf_graph where
  "cycle_graph =
     \<lparr>nodes = [example_node ''S'' ''CONDITION_VARIABLE'' [],
               example_node ''A'' ''CONDITION_VARIABLE'' [],
               example_node ''B'' ''CONDITION_VARIABLE'' []],
      edges = [example_edge ''S'' ''A'' JUndefined, example_edge ''A'' ''B'' JUndefined,
               example_edge ''B'' ''A'' JUndefined]\<rparr>"

fun visitAll :: "int \<Rightarrow> string list \<Rightarrow> loop_detector \<Rightarrow> (js_error + unit) \<times> loop_detector" where
  "visitAll now [] d = (Inr (), d)"
| "visitAll now (nid # rest) d =
     (case visitNode now nid d of
        (Inl e, d') \<Rightarrow> (Inl e, d')
      | (Inr u, d') \<Rightarrow> visitAll now rest d')"

definition api_graph :: "string \<Rightarrow> wf_graph" where
  "api_graph url =
     \<lparr>nodes = [example_node ''call'' ''ACTION_API_CALL'' [(''url'', JStr url)]], edges = []\<rparr>"

definition api_world :: "string \<Rightarrow> world" where
  "api_world url =
     (example_world None)
       \<lparr>executions := (\<lambda>k. None),
        workflows := (\<lambda>k. if k = ''wf1''
                           then Some \<lparr>wr_isActive = True, wr_deleted = False,
                                      wr_graph = api_graph url\<rparr>
                           else None)\<rparr>"

definition private_host :: "string \<Rightarrow> bool" where
  "private_host h \<longleftrightarrow>
     lowercase h \<in> set blockedHosts \<or> startsWith h ''192.168.'' \<or> startsWith h ''10.'' \<or>
     matches172 h \<or> startsWith h ''169.254.''"

text \<open>
  The context and the world \<^verbatim>\<open>initializeWorkflowForConversation\<close> produces for the
  graph that calls a URL.
\<close>

definition api_context :: "string \<Rightarrow> exec_context" where
  "api_context url = example_context (api_graph url) ''call'' []"

definition api_started_world :: "string \<Rightarrow> world" where
  "api_started_world url =
     saveContext (api_context url)
       ((api_world url)\<lparr>executions := (executions (api_world url))(''exec1'' \<mapsto>
            \<lparr>ex_workflowId = ''wf1'', ex_conversationId = ''conv1'', ex_status = RUNNING,
             ex_error = None, ex_logs = []\<rparr>)\<rparr>)"

text \<open>
  A world in which the graph \<open>g\<close> is the active workflow \<open>wf1\<close> and nothing has run
  yet, and the world \<^verbatim>\<open>initializeWorkflowForConversation\<close> makes of it for the
  conversation \<open>conv1\<close> when the entry node of \<open>g\<close> is \<open>entry\<close>.
\<close>

definition graph_world :: "wf_graph \<Rightarrow> world" where
  "graph_world g =
     (example_world None)
       \<lparr>executions := (\<lambda>k. None),
        workflows := (\<lambda>k. if k = ''wf1''
                           then Some \<lparr>wr_isActive = True, wr_deleted = False, wr_graph = g\<rparr>
                           else None)\<rparr>"

definition started_world :: "wf_graph \<Rightarrow> string \<Rightarrow> world" where
  "started_world g entry =
     saveContext (example_context g entry [])
       ((graph_world g)\<lparr>executions := (executions (graph_world g))(''exec1'' \<mapsto>
            \<lparr>ex_workflowId = ''wf1'', ex_conversationId = ''conv1'', ex_status = RUNNING,
             ex_error = None, ex_logs = []\<rparr>)\<rparr>)"

text \<open>
  A graph whose entry node has the type \<^verbatim>\<open>FLOW_LOOP\<close>, which the synchronous engine
  executes and the persisted engine does not recognize, and leads to a node that sends a
  message; and the world the dispatch of an unrecognized node leaves: an entry in the
  execution log, the record of the dispatch and the warning, nothing else.
\<close>

definition skipping_graph :: wf_graph where
  "skipping_graph =
     \<lparr>nodes = [example_node ''loop'' ''FLOW_LOOP'' [],
               example_node ''bye'' ''ACTION_MESSAGE''
                 [(''message'', JStr ''Goodbye''), (''waitForResponse'', JBool False)]],
      edges = [example_edge ''loop'' ''bye'' JUndefined]\<rparr>"

definition warned_world :: "exec_context \<Rightarrow> wf_node \<Rightarrow> world \<Rightarrow> world" where
  "warned_world ctx node w =
     (addExecutionLog (executionId ctx) (LogExecuting (node_label node) (node_type node)) w)
       \<lparr>applog := applog w @ [ExecutingNode (node_id node),
                                UnknownNodeType (node_type node) (node_id node)]\<rparr>"

section \<open>One step of the orchestrator\<close>

lemma processNextNode_waiting:
  assumes "currentNode ctx = Some node"
    and "dispatchCurrent P ctx w node = (Inr result, ctx1, w2)"
    and "waitingForInput ctx1"
  shows "processNextNode (Suc fuel) P ctx w =
           Some (Inr (), saveContext (ctx1\<lparr>variables := obj_merge (variables ctx1) result\<rparr>)
                           (addExecutionLog (executionId ctx) LogWaiting w2))"
  using assms
  by (auto simp: currentNode_def dispatchCurrent_def Let_def split: option.splits if_splits)

lemma processNextNode_ends:
  assumes "currentNode ctx = Some node"
    and "dispatchCurrent P ctx w node = (Inr result, ctx1, w2)"
    and "\<not> waitingForInput ctx1"
    and "findNextNode P node (ctx1\<lparr>variables := obj_merge (variables ctx1) result\<rparr>) = Inr None"
  shows "processNextNode (Suc fuel) P ctx w =
           Some (case completeRun (ctx1\<lparr>variables := obj_merge (variables ctx1) result\<rparr>) w2 of
                   (Inl e, w3) \<Rightarrow> logAndRethrow ctx e w3
                 | (Inr u, w3) \<Rightarrow> (Inr (), w3))"
  using assms
  by (auto simp: currentNode_def dispatchCurrent_def Let_def split: option.splits if_splits prod.splits sum.splits)

lemma processNextNode_throws:
  assumes "currentNode ctx = Some node"
    and "dispatchCurrent P ctx w node = (Inl e, ctx1, w2)"
  shows "processNextNode (Suc fuel) P ctx w = Some (logAndRethrow ctx e w2)"
  using assms
  by (auto simp: currentNode_def dispatchCurrent_def Let_def split: option.splits if_splits)

lemma processNextNode_continues:
  assumes "currentNode ctx = Some node"
    and "dispatchCurrent P ctx w node = (Inr result, ctx1, w2)"
    and "\<not> waitingForInput ctx1"
    and "findNextNode P node (ctx1\<lparr>variables := obj_merge (variables ctx1) result\<rparr>) = Inr (Some t)"
    and "t \<noteq> []"
  shows "processNextNode (Suc fuel) P ctx w =
           (case processNextNode fuel P
                   (ctx1\<lparr>variables := obj_merge (variables ctx1) result, currentNodeId := Some t\<rparr>)
                   (saveContext (ctx1\<lparr>variables := obj_merge (variables ctx1) result, currentNodeId := Some t\<rparr>) w2) of
              None \<Rightarrow> None
            | Some (Inl e, w4) \<Rightarrow> Some (logAndRethrow ctx e w4)
            | Some (Inr u, w4) \<Rightarrow> Some (Inr (), w4))"
  using assms
  by (auto simp: currentNode_def dispatchCurrent_def Let_def split: option.splits if_splits)


declare processNextNode.simps(2) [simp del]

section \<open>What a dispatch changes\<close>

lemma addExecutionLog_applog [simp]: "applog (addExecutionLog eid l w) = applog w"
  by (simp add: addExecutionLog_def split: option.splits)

lemma addExecutionLog_executions:
  "executions (addExecutionLog eid l w) k \<noteq> None \<longleftrightarrow> executions w k \<noteq> None"
  by (simp add: addExecutionLog_def split: option.splits)

lemma dispatch_count_simps [simp]:
  "dispatch_count (sendMessageToUser cid m w) = dispatch_count w"
  "dispatch_count (addExecutionLog eid l w) = dispatch_count w"
  "dispatch_count (saveContext c w) = dispatch_count w"
  by (simp_all add: dispatch_count_def sendMessageToUser_def addExecutionLog_def saveContext_def
        split: option.splits)

lemma executeActionApiCall_applog:
  "executeActionApiCall P config vars w = (r, w') \<Longrightarrow> applog w' = applog w"
  by (auto simp: executeActionApiCall_def Let_def split: sum.splits prod.splits if_splits)

lemma executeNode_dispatch_count:
  "executeNode P node ctx w = (r, ctx1, w2) \<Longrightarrow> dispatch_count w2 = Suc (dispatch_count w)"
  by (auto simp: executeNode_def Let_def executeTriggerUserInput_def executeActionMessage_def
        executeActionWaitForInput_def dispatch_count_def sendMessageToUser_def
        dest: executeActionApiCall_applog
        split: sum.splits prod.splits if_splits)

lemma executeNode_frame:
  "executeNode P node ctx w = (r, ctx1, w2) \<Longrightarrow>
     conversationId ctx1 = conversationId ctx \<and> currentNodeId ctx1 = currentNodeId ctx \<and>
     executionId ctx1 = executionId ctx \<and> workflow ctx1 = workflow ctx"
  by (auto simp: executeNode_def Let_def executeTriggerUserInput_def executeActionMessage_def
        executeActionWaitForInput_def
        split: sum.splits prod.splits if_splits)

lemma getWorkflowState_saveContext:
  "getWorkflowState (conversationId c) (saveContext c w) =
     Some (c\<lparr>variables := json_object (variables c)\<rparr>)"
  by (simp add: getWorkflowState_def getContext_def saveContext_def)

lemma executeActionApiCall_executions:
  "executeActionApiCall P config vars w = (r, w') \<Longrightarrow> executions w' = executions w"
  by (auto simp: executeActionApiCall_def Let_def split: sum.splits prod.splits if_splits)

lemma executeNode_executions:
  "executeNode P node ctx w = (r, ctx1, w2) \<Longrightarrow> executions w2 = executions w"
  by (auto simp: executeNode_def Let_def executeTriggerUserInput_def executeActionMessage_def
        executeActionWaitForInput_def sendMessageToUser_def
        dest: executeActionApiCall_executions
        split: sum.splits prod.splits if_splits)

lemma completeRun_effect:
  "executions w (executionId ctx) = Some ex \<Longrightarrow>
     completeRun ctx w =
       (Inr (), deleteContext (conversationId ctx)
                  (w\<lparr>executions := (executions w)(executionId ctx \<mapsto> ex\<lparr>ex_status := COMPLETED\<rparr>)\<rparr>))"
  by (simp add: completeRun_def markExecutionCompleted_def)

lemma dispatches_simps [simp]:
  "dispatches (sendMessageToUser cid m w) = dispatches w"
  "dispatches (addExecutionLog eid l w) = dispatches w"
  "dispatches (saveContext c w) = dispatches w"
  by (simp_all add: dispatches_def sendMessageToUser_def saveContext_def)

lemma executeNode_dispatches:
  "executeNode P node ctx w = (r, ctx1, w2) \<Longrightarrow> dispatches w2 = dispatches w @ [node_id node]"
  by (auto simp: executeNode_def Let_def executeTriggerUserInput_def executeActionMessage_def
        executeActionWaitForInput_def dispatches_def sendMessageToUser_def
        dest: executeActionApiCall_applog
        split: sum.splits prod.splits if_splits)

lemma completeRun_succeeds:
  "completeRun ctx w = (Inr u, w') \<Longrightarrow>
     getWorkflowState (conversationId ctx) w' = None \<and>
     (\<exists>ex. executions w' (executionId ctx) = Some ex \<and> ex_status ex = COMPLETED)"
  by (auto simp: completeRun_def markExecutionCompleted_def deleteContext_def
        getWorkflowState_def getContext_def split: option.splits)

lemma interpolate_no_variables: "interpolateVariables P text [] = Inr text"
  by (simp add: interpolateVariables_def objectKeys_def)

lemma graph_initialize:
  "find (\<lambda>n. \<not> list_ex (\<lambda>e. targetNodeId e = node_id n) (edges g)) (nodes g) = Some n \<Longrightarrow>
     initializeWorkflowForConversation ''exec1'' ''conv1'' ''wf1'' None (graph_world g) =
       (Inr (Started ''exec1'' (example_context g (node_id n) [])), started_world g (node_id n))"
  by (simp add: initializeWorkflowForConversation_def getContext_def graph_world_def
        example_world_def Let_def started_world_def example_context_def)

lemma currentNode_id: "currentNode ctx = Some node \<Longrightarrow> currentNodeId ctx = Some (node_id node)"
  by (auto simp: currentNode_def split: option.splits if_splits dest: find_Some_iff [THEN iffD1])

lemma run_completes_at_node:
  assumes "currentNode c = Some node"
    and "dispatchCurrent P c w node = (Inr result, c1, w2)"
    and "\<not> waitingForInput c1"
    and "findNextNode P node (c1\<lparr>variables := obj_merge (variables c1) result\<rparr>) = Inr None"
    and "executions w (executionId c) \<noteq> None"
  shows "\<exists>final ex. processNextNode (Suc fuel) P c w = Some (Inr (), final)
           \<and> getWorkflowState (conversationId c) final = None
           \<and> executions final (executionId c) = Some ex \<and> ex_status ex = COMPLETED
           \<and> dispatch_count final = Suc (dispatch_count w)"
proof -
  let ?c2 = "c1\<lparr>variables := obj_merge (variables c1) result\<rparr>"
  let ?w1 = "addExecutionLog (executionId c) (LogExecuting (node_label node) (node_type node)) w"
  have d: "executeNode P node c ?w1 = (Inr result, c1, w2)"
    using assms(2) by (simp add: dispatchCurrent_def)
  have f: "conversationId ?c2 = conversationId c" "executionId ?c2 = executionId c"
    using executeNode_frame [OF d] by simp_all
  have "executions w2 (executionId c) \<noteq> None"
    using executeNode_executions [OF d] assms(5)
      addExecutionLog_executions [of "executionId c" _ w "executionId c"]
    by simp
  then obtain ex where ex: "executions w2 (executionId ?c2) = Some ex"
    using f by auto
  have n: "dispatch_count w2 = Suc (dispatch_count w)"
    using executeNode_dispatch_count [OF d] by simp
  from processNextNode_ends [OF assms(1-4), of fuel] completeRun_effect [OF ex] f n
  show ?thesis
    by (simp add: deleteContext_def getWorkflowState_def getContext_def dispatch_count_def)
qed

lemma completeRun_applog: "completeRun ctx w = (r, w') \<Longrightarrow> applog w' = applog w"
  by (auto simp: completeRun_def markExecutionCompleted_def deleteContext_def
           split: option.splits)

lemma run_ends_at_node:
  assumes "currentNode c = Some node"
    and "dispatchCurrent P c w node = (Inr result, c1, w2)"
    and "\<not> waitingForInput c1"
    and "findNextNode P node (c1\<lparr>variables := obj_merge (variables c1) result\<rparr>) = Inr None"
  shows "\<exists>r final. processNextNode (Suc fuel) P c w = Some (r, final)
           \<and> dispatch_count final = Suc (dispatch_count w)"
proof -
  let ?c2 = "c1\<lparr>variables := obj_merge (variables c1) result\<rparr>"
  have d: "executeNode P node c
             (addExecutionLog (executionId c) (LogExecuting (node_label node) (node_type node)) w) =
           (Inr result, c1, w2)"
    using assms(2) by (simp add: dispatchCurrent_def)
  have n: "dispatch_count w2 = Suc (dispatch_count w)"
    using executeNode_dispatch_count [OF d] by simp
  obtain r w3 where cr: "completeRun ?c2 w2 = (r, w3)"
    by (metis surj_pair)
  then have "applog w3 = applog w2"
    by (rule completeRun_applog)
  then have "dispatch_count w3 = Suc (dispatch_count w)"
    using n by (simp add: dispatch_count_def)
  with processNextNode_ends [OF assms(1-4), of fuel] cr show ?thesis
    by (cases r) (auto simp: logAndRethrow_def)
qed

section \<open>Edge conditions that are malformed or unrecognized\<close>

lemma sequence_sum_Inr:
  "list_all (\<lambda>r. \<not> isl r) rs \<Longrightarrow> \<exists>xs. sequence_sum rs = Inr xs"
  by (induction rs) (auto split: sum.splits)

lemma sequence_sum_Inl:
  "sequence_sum rs = Inl e \<Longrightarrow> Inl e \<in> set rs"
  by (induction rs) (auto split: sum.splits)

lemma js_ToString_coercible: "coercible v \<Longrightarrow> \<exists>s. js_ToString P v = Inr s"
proof (induction v rule: coercible.induct)
  case (1 xs)
  have "list_all (\<lambda>r. \<not> isl r)
          (map (\<lambda>x. if x = JUndefined \<or> x = JNull then Inr [] else js_ToString P x) xs)"
    unfolding list_all_iff
  proof
    fix r
    assume "r \<in> set (map (\<lambda>x. if x = JUndefined \<or> x = JNull then Inr []
                                else js_ToString P x) xs)"
    then obtain x where x: "x \<in> set xs"
      and r: "r = (if x = JUndefined \<or> x = JNull then Inr [] else js_ToString P x)"
      by auto
    show "\<not> isl r"
    proof (cases "x = JUndefined \<or> x = JNull")
      case True
      then show ?thesis using r by simp
    next
      case False
      with 1 x have "\<exists>s. js_ToString P x = Inr s" by (auto simp: list_all_iff)
      with False r show ?thesis by auto
    qed
  qed
  from sequence_sum_Inr [OF this] show ?case by auto
qed simp_all

lemma js_ToString_error: "js_ToString P v = Inl e \<Longrightarrow> e = TypeError \<and> \<not> coercible v"
proof (induction v arbitrary: e rule: coercible.induct)
  case (1 xs)
  from "1.prems" have "sequence_sum
         (map (\<lambda>x. if x = JUndefined \<or> x = JNull then Inr [] else js_ToString P x) xs) = Inl e"
    by (auto split: sum.splits)
  from sequence_sum_Inl [OF this] obtain x where x: "x \<in> set xs" "x \<noteq> JUndefined" "x \<noteq> JNull"
      "js_ToString P x = Inl e"
    by (auto split: if_splits)
  with "1.IH" have "e = TypeError \<and> \<not> coercible x" by blast
  with x show ?case by (auto simp: list_all_iff)
qed (auto split: if_splits)

lemma js_ToNumber_coercible: "coercible v \<Longrightarrow> \<exists>n. js_ToNumber P v = Inr n"
  using js_ToString_coercible [of v P] by (cases v) auto

lemma js_ToNumber_error: "js_ToNumber P v = Inl e \<Longrightarrow> e = TypeError \<and> \<not> coercible v"
  using js_ToString_error [of P v e] by (cases v) (auto split: sum.splits)

lemma ex_bool: "\<exists>b::bool. b"
  by blast

lemma js_prop_truthy: "truthy cond \<Longrightarrow> js_prop cond key = Inr (condition_part cond key)"
  by (cases cond) (auto simp: js_prop_def condition_part_def)

lemma string_includes_error: "string_includes P a b = Inl e \<Longrightarrow> e = TypeError"
  by (auto simp: string_includes_def bindE_def split: sum.splits dest: js_ToString_error)

lemma number_less_error: "number_less P a b = Inl e \<Longrightarrow> e = TypeError"
  by (auto simp: number_less_def bindE_def split: sum.splits dest: js_ToNumber_error)

lemma number_greater_error: "number_greater P a b = Inl e \<Longrightarrow> e = TypeError"
  by (auto simp: number_greater_def bindE_def split: sum.splits dest: js_ToNumber_error)

lemma evaluateCondition_error:
  assumes "truthy cond" and "evaluateCondition P cond vars = Inl e"
  shows "e = TypeError"
proof -
  note p = js_prop_truthy [OF assms(1)]
  show ?thesis
  proof (cases "js_ToString P (condition_part cond ''field'')")
    case (Inl e')
    then have "e' = TypeError" by (auto dest: js_ToString_error)
    with Inl assms(2) show ?thesis
      by (auto simp: evaluateCondition_def p bindE_def split: if_splits)
  next
    case (Inr key)
    with assms(2) show ?thesis
      by (auto simp: evaluateCondition_def p bindE_def Let_def split: if_splits sum.splits
               dest: string_includes_error number_less_error number_greater_error)
  qed
qed

lemma evaluateCondition_missing:
  assumes "truthy cond"
    and "\<not> truthy (condition_part cond ''field'') \<or> \<not> truthy (condition_part cond ''operator'')"
  shows "evaluateCondition P cond vars = Inr True"
  using assms(2) by (auto simp: evaluateCondition_def js_prop_truthy [OF assms(1)] bindE_def)

lemma evaluateCondition_unknown_operator:
  assumes "truthy cond"
    and "condition_part cond ''operator'' \<notin> JStr ` set implemented_operators"
    and "coercible (condition_part cond ''field'')"
  shows "evaluateCondition P cond vars = Inr True"
proof -
  obtain key where "js_ToString P (condition_part cond ''field'') = Inr key"
    using assms(3) js_ToString_coercible by blast
  then show ?thesis using assms(2)
    by (auto simp: evaluateCondition_def js_prop_truthy [OF assms(1)] bindE_def Let_def
          implemented_operators_def)
qed

lemma evaluateCondition_returns:
  assumes "truthy cond"
    and "coercible (condition_part cond ''field'')"
    and "coercible (condition_subject P cond vars)"
    and "coercible (condition_part cond ''value'')"
  shows "\<exists>b. evaluateCondition P cond vars = Inr b"
proof -
  obtain key where k: "js_ToString P (condition_part cond ''field'') = Inr key"
    using assms(2) js_ToString_coercible by blast
  with assms(3) have c: "coercible (js_lookup vars key)"
    by (simp add: condition_subject_def)
  obtain s1 s2 n1 n2 where
    "js_ToString P (js_lookup vars key) = Inr s1"
    "js_ToString P (condition_part cond ''value'') = Inr s2"
    "js_ToNumber P (js_lookup vars key) = Inr n1"
    "js_ToNumber P (condition_part cond ''value'') = Inr n2"
    using c assms(4) js_ToString_coercible js_ToNumber_coercible by meson
  then show ?thesis
    by (simp add: evaluateCondition_def js_prop_truthy [OF assms(1)] k bindE_def Let_def
          string_includes_def number_less_def number_greater_def ex_bool)
qed

text \<open>
  C10, as the code has it. For every edge condition the router hands to the persisted
  engine's \<^verbatim>\<open>evaluateCondition\<close> (a truthy value): when its field or its operator is
  missing or falsy, the evaluator returns true; when its operator is not one of the
  implemented operator names and its field converts to a property key, the evaluator
  returns true, so the guard behaves as an unconditional edge. Evaluation returns a
  boolean whenever the field, the variable it names and the comparison value are
  convertible; the only error it can raise is the \<^verbatim>\<open>TypeError\<close> of a failed conversion.
\<close>

theorem evaluateCondition_defaults_to_true:
  assumes "truthy cond"
  shows "(\<not> truthy (condition_part cond ''field'') \<or> \<not> truthy (condition_part cond ''operator'')
            \<longrightarrow> evaluateCondition P cond vars = Inr True)
       \<and> (condition_part cond ''operator'' \<notin> JStr ` set implemented_operators \<and>
          coercible (condition_part cond ''field'')
            \<longrightarrow> evaluateCondition P cond vars = Inr True)
       \<and> (coercible (condition_part cond ''field'') \<and> coercible (condition_subject P cond vars) \<and>
          coercible (condition_part cond ''value'')
            \<longrightarrow> (\<exists>b. evaluateCondition P cond vars = Inr b))
       \<and> (\<forall>e. evaluateCondition P cond vars = Inl e \<longrightarrow> e = TypeError)"
  using evaluateCondition_missing [OF assms] evaluateCondition_unknown_operator [OF assms]
    evaluateCondition_returns [OF assms] evaluateCondition_error [OF assms]
  by blast

theorem evaluateCondition_defaults_to_true_witness:
  "evaluateCondition example_platform (JObj [(''operator'', JStr ''equals'')]) [] = Inr True
   \<and> evaluateCondition example_platform
        (JObj [(''field'', JStr ''intent''), (''operator'', JStr ''resembles'')]) [] = Inr True"
proof -
  have t1: "truthy (JObj [(''operator'', JStr ''equals'')])" by simp
  have t2: "truthy (JObj [(''field'', JStr ''intent''), (''operator'', JStr ''resembles'')])"
    by simp
  have a: "\<not> truthy (condition_part (JObj [(''operator'', JStr ''equals'')]) ''field'')"
    by (simp add: condition_part_def js_prop_def js_lookup_def object_prototype_keys_def)
  have b: "condition_part (JObj [(''field'', JStr ''intent''), (''operator'', JStr ''resembles'')])
             ''operator'' \<notin> JStr ` set implemented_operators"
    by (simp add: condition_part_def js_prop_def js_lookup_def implemented_operators_def)
  have c: "coercible (condition_part
             (JObj [(''field'', JStr ''intent''), (''operator'', JStr ''resembles'')]) ''field'')"
    by (simp add: condition_part_def js_prop_def js_lookup_def)
  from evaluateCondition_defaults_to_true [OF t1, of example_platform "[]"] a
       evaluateCondition_defaults_to_true [OF t2, of example_platform "[]"] b c
  show ?thesis by blast
qed

text \<open>
  C10 as stated says that no edge condition ever raises. The condition
  \<^verbatim>\<open>reply contains "yes"\<close> raises when the variable \<^verbatim>\<open>reply\<close> holds the JSON object
  \<^verbatim>\<open>{"toString": 1}\<close>: \<^verbatim>\<open>String(fieldValue)\<close> finds a \<^verbatim>\<open>toString\<close> that is not callable.
\<close>

theorem evaluateCondition_raises_counterexample:
  "\<not> (\<forall>P cond vars. truthy cond \<longrightarrow> (\<exists>b. evaluateCondition P cond vars = Inr b))"
proof
  assume "\<forall>P cond vars. truthy cond \<longrightarrow> (\<exists>b. evaluateCondition P cond vars = Inr b)"
  then have "\<exists>b. evaluateCondition example_platform
                    (JObj [(''field'', JStr ''reply''), (''operator'', JStr ''contains''),
                           (''value'', JStr ''yes'')])
                    [(''reply'', JObj [(''toString'', JNum (Fin 1))])] = Inr b"
    by simp
  then show False
    by (simp add: evaluateCondition_def bindE_def js_prop_def js_lookup_def string_includes_def)
qed



section \<open>Routing: the first matching edge\<close>

lemma firstEdge_first_match:
  "firstEdge P vars es = Inr r \<Longrightarrow> r = first_match P vars es"
  by (induction es) (auto simp: first_match_def edge_taken_def split: sum.splits if_splits)

lemma firstEdge_returns:
  "list_all (\<lambda>e. \<not> edge_raises P vars e) es
     \<Longrightarrow> firstEdge P vars es = Inr (first_match P vars es)"
  by (induction es)
     (auto simp: first_match_def edge_taken_def edge_raises_def split: sum.splits if_splits)

lemma first_match_empty: "first_match P vars [] = None"
  by (simp add: first_match_def)

lemma edge_decided: "edge_refused P vars e \<or> edge_taken P vars e \<or> edge_raises P vars e"
  by (cases "evaluateCondition P (condition e) vars")
     (auto simp: edge_refused_def edge_taken_def edge_raises_def)

lemma edge_refused_only:
  "edge_refused P vars e \<Longrightarrow> \<not> edge_taken P vars e \<and> \<not> edge_raises P vars e"
  by (auto simp: edge_refused_def edge_taken_def edge_raises_def)

lemma firstEdge_skips_refused:
  "list_all (edge_refused P vars) pre \<Longrightarrow> firstEdge P vars (pre @ rest) = firstEdge P vars rest"
  by (induction pre) (auto simp: edge_refused_def)

lemma firstEdge_takes:
  "edge_taken P vars e \<Longrightarrow> firstEdge P vars (e # post) = Inr (Some (targetNodeId e))"
  by (auto simp: edge_taken_def split: if_splits)

lemma firstEdge_raises:
  "edge_raises P vars e \<Longrightarrow> firstEdge P vars (e # post) = Inl TypeError"
  by (auto simp: edge_raises_def isl_def dest: evaluateCondition_error)

text \<open>
  The three situations the statement below distinguishes leave no list of edges out: the
  edges are all refused, or after refused edges comes one that is taken or that raises.
\<close>

lemma edges_decided:
  "list_all (edge_refused P vars) out \<or>
   (\<exists>pre e post. out = pre @ e # post \<and> list_all (edge_refused P vars) pre \<and>
      (edge_taken P vars e \<or> edge_raises P vars e))"
proof (induction out)
  case Nil
  then show ?case by simp
next
  case (Cons x xs)
  show ?case
  proof (cases "edge_refused P vars x")
    case False
    then have "edge_taken P vars x \<or> edge_raises P vars x"
      using edge_decided [of P vars x] by blast
    then have "x # xs = [] @ x # xs \<and> list_all (edge_refused P vars) [] \<and>
                 (edge_taken P vars x \<or> edge_raises P vars x)"
      by simp
    then show ?thesis by blast
  next
    case True
    from Cons.IH show ?thesis
    proof
      assume "list_all (edge_refused P vars) xs"
      with True show ?thesis by simp
    next
      assume "\<exists>pre e post. xs = pre @ e # post \<and> list_all (edge_refused P vars) pre \<and>
                (edge_taken P vars e \<or> edge_raises P vars e)"
      then obtain pre e post where "xs = pre @ e # post" "list_all (edge_refused P vars) pre"
          "edge_taken P vars e \<or> edge_raises P vars e"
        by blast
      with True have "x # xs = (x # pre) @ e # post \<and> list_all (edge_refused P vars) (x # pre) \<and>
                        (edge_taken P vars e \<or> edge_raises P vars e)"
        by simp
      then show ?thesis by blast
    qed
  qed
qed

text \<open>
  C4, as the code has it. For every node and every assignment of the variables,
  \<^verbatim>\<open>findNextNode\<close> goes through the node's outgoing edges in definition order, evaluating
  the condition of each edge it comes to. It returns the target of the first edge that
  has no condition or whose condition evaluates to true, provided the conditions of the
  edges before it evaluate to false; the edges after it are not examined, so there is at
  most one successor. It returns nothing when the node has no outgoing edge or every
  condition evaluates to false, and then \<^verbatim>\<open>processNextNode\<close> ends the run at this node,
  whatever bound the burst was given: no other node is dispatched, and, the execution
  record being there, the execution is marked \<^verbatim>\<open>COMPLETED\<close> and the context is deleted.
  When the condition of an edge raises before any edge was taken, the router raises that
  \<^verbatim>\<open>TypeError\<close> and returns no successor at all. Whenever it does return, what it returns
  is the target of the first edge that has no condition or whose condition is true.
\<close>

theorem findNextNode_takes_first_match:
  "(outgoingEdges (workflow ctx) (node_id node) = pre @ e # post \<and>
      list_all (edge_refused P (variables ctx)) pre \<and> edge_taken P (variables ctx) e \<longrightarrow>
      findNextNode P node ctx = Inr (Some (targetNodeId e)))
   \<and> (list_all (edge_refused P (variables ctx)) (outgoingEdges (workflow ctx) (node_id node)) \<longrightarrow>
      findNextNode P node ctx = Inr None)
   \<and> (outgoingEdges (workflow ctx) (node_id node) = [] \<longrightarrow> findNextNode P node ctx = Inr None)
   \<and> (outgoingEdges (workflow ctx) (node_id node) = pre @ e # post \<and>
      list_all (edge_refused P (variables ctx)) pre \<and> edge_raises P (variables ctx) e \<longrightarrow>
      findNextNode P node ctx = Inl TypeError)
   \<and> (findNextNode P node ctx = Inr r \<longrightarrow>
      r = first_match P (variables ctx) (outgoingEdges (workflow ctx) (node_id node)))
   \<and> (list_all (\<lambda>e. \<not> edge_raises P (variables ctx) e)
         (outgoingEdges (workflow ctx) (node_id node)) \<longrightarrow>
       findNextNode P node ctx =
         Inr (first_match P (variables ctx) (outgoingEdges (workflow ctx) (node_id node))))
   \<and> (currentNode c = Some node \<and> dispatchCurrent P c w node = (Inr result, c1, w2) \<and>
       \<not> waitingForInput c1 \<and> ctx = c1\<lparr>variables := obj_merge (variables c1) result\<rparr> \<and>
       findNextNode P node ctx = Inr None \<longrightarrow>
       (\<exists>outcome final. processNextNode (Suc fuel) P c w = Some (outcome, final)
          \<and> dispatch_count final = Suc (dispatch_count w)))
   \<and> (currentNode c = Some node \<and> dispatchCurrent P c w node = (Inr result, c1, w2) \<and>
       \<not> waitingForInput c1 \<and> ctx = c1\<lparr>variables := obj_merge (variables c1) result\<rparr> \<and>
       findNextNode P node ctx = Inr None \<and> executions w (executionId c) \<noteq> None \<longrightarrow>
       (\<exists>final ex. processNextNode (Suc fuel) P c w = Some (Inr (), final)
          \<and> getWorkflowState (conversationId c) final = None
          \<and> executions final (executionId c) = Some ex \<and> ex_status ex = COMPLETED
          \<and> dispatch_count final = Suc (dispatch_count w)))"
proof (intro conjI impI)
  assume a: "outgoingEdges (workflow ctx) (node_id node) = pre @ e # post \<and>
      list_all (edge_refused P (variables ctx)) pre \<and> edge_taken P (variables ctx) e"
  then show "findNextNode P node ctx = Inr (Some (targetNodeId e))"
    using firstEdge_skips_refused [of P "variables ctx" pre "e # post"]
      firstEdge_takes [of P "variables ctx" e post]
    by (simp add: findNextNode_def Let_def del: firstEdge.simps)
next
  assume a: "list_all (edge_refused P (variables ctx))
               (outgoingEdges (workflow ctx) (node_id node))"
  then have "firstEdge P (variables ctx) (outgoingEdges (workflow ctx) (node_id node) @ []) =
               firstEdge P (variables ctx) []"
    by (rule firstEdge_skips_refused)
  then show "findNextNode P node ctx = Inr None"
    by (simp add: findNextNode_def Let_def)
next
  assume "outgoingEdges (workflow ctx) (node_id node) = []"
  then show "findNextNode P node ctx = Inr None"
    by (simp add: findNextNode_def)
next
  assume a: "outgoingEdges (workflow ctx) (node_id node) = pre @ e # post \<and>
      list_all (edge_refused P (variables ctx)) pre \<and> edge_raises P (variables ctx) e"
  then show "findNextNode P node ctx = Inl TypeError"
    using firstEdge_skips_refused [of P "variables ctx" pre "e # post"]
      firstEdge_raises [of P "variables ctx" e post]
    by (simp add: findNextNode_def Let_def del: firstEdge.simps)
next
  assume "findNextNode P node ctx = Inr r"
  then show "r = first_match P (variables ctx) (outgoingEdges (workflow ctx) (node_id node))"
    by (auto simp: findNextNode_def Let_def first_match_empty dest: firstEdge_first_match
             split: if_splits)
next
  assume "list_all (\<lambda>e. \<not> edge_raises P (variables ctx) e)
            (outgoingEdges (workflow ctx) (node_id node))"
  then show "findNextNode P node ctx =
               Inr (first_match P (variables ctx) (outgoingEdges (workflow ctx) (node_id node)))"
    by (simp add: findNextNode_def Let_def first_match_empty firstEdge_returns)
next
  assume a: "currentNode c = Some node \<and> dispatchCurrent P c w node = (Inr result, c1, w2) \<and>
       \<not> waitingForInput c1 \<and> ctx = c1\<lparr>variables := obj_merge (variables c1) result\<rparr> \<and>
       findNextNode P node ctx = Inr None"
  then show "\<exists>outcome final. processNextNode (Suc fuel) P c w = Some (outcome, final)
          \<and> dispatch_count final = Suc (dispatch_count w)"
    using run_ends_at_node [of c node P w result c1 w2 fuel] by blast
next
  assume a: "currentNode c = Some node \<and> dispatchCurrent P c w node = (Inr result, c1, w2) \<and>
       \<not> waitingForInput c1 \<and> ctx = c1\<lparr>variables := obj_merge (variables c1) result\<rparr> \<and>
       findNextNode P node ctx = Inr None \<and> executions w (executionId c) \<noteq> None"
  then show "\<exists>final ex. processNextNode (Suc fuel) P c w = Some (Inr (), final)
          \<and> getWorkflowState (conversationId c) final = None
          \<and> executions final (executionId c) = Some ex \<and> ex_status ex = COMPLETED
          \<and> dispatch_count final = Suc (dispatch_count w)"
    using run_completes_at_node [of c node P w result c1 w2 fuel] by blast
qed

theorem findNextNode_takes_first_match_witness:
  "findNextNode example_platform (example_node ''A'' ''CONDITION_VARIABLE'' [])
     (example_context branching_graph ''A'' [(''intent'', JStr ''sales'')]) = Inr (Some ''C'')
   \<and> (\<exists>final ex.
        processNextNode 1 example_platform (example_context branching_graph ''C'' [])
          (example_world (Some (example_context branching_graph ''C'' []))) =
          Some (Inr (), final)
        \<and> getWorkflowState ''conv1'' final = None
        \<and> executions final ''exec1'' = Some ex \<and> ex_status ex = COMPLETED
        \<and> dispatch_count final = 1)"
proof -
  let ?vars = "[(''intent'', JStr ''sales'')]"
  let ?ctx = "example_context branching_graph ''A'' ?vars"
  let ?guarded = "example_edge ''A'' ''B''
                    (JObj [(''field'', JStr ''intent''), (''operator'', JStr ''equals''),
                           (''value'', JStr ''billing'')])"
  let ?open = "example_edge ''A'' ''C'' JUndefined"
  have o: "outgoingEdges (workflow ?ctx) (node_id (example_node ''A'' ''CONDITION_VARIABLE'' [])) =
             [?guarded] @ ?open # []"
    by (simp add: outgoingEdges_def branching_graph_def example_node_def example_edge_def
          example_context_def)
  have r: "list_all (edge_refused example_platform (variables ?ctx)) [?guarded]"
    by (simp add: edge_refused_def example_edge_def example_context_def evaluateCondition_def
          bindE_def js_prop_def js_lookup_def Let_def)
  have t: "edge_taken example_platform (variables ?ctx) ?open"
    by (simp add: edge_taken_def example_edge_def)
  from findNextNode_takes_first_match
         [where ctx = ?ctx and node = "example_node ''A'' ''CONDITION_VARIABLE'' []"
            and pre = "[?guarded]" and e = ?open and post = "[]" and P = example_platform]
       o r t
  have first: "findNextNode example_platform (example_node ''A'' ''CONDITION_VARIABLE'' []) ?ctx =
                 Inr (Some ''C'')"
    by (simp add: example_edge_def)
  let ?c = "example_context branching_graph ''C'' []"
  let ?w = "example_world (Some ?c)"
  let ?node = "example_node ''C'' ''CONDITION_VARIABLE'' []"
  let ?result = "[(''conditionMet'', JBool False)]"
  let ?w2 = "snd (snd (dispatchCurrent example_platform ?c ?w ?node))"
  have n: "currentNode ?c = Some ?node"
    by (simp add: currentNode_def example_context_def branching_graph_def example_node_def)
  have d: "dispatchCurrent example_platform ?c ?w ?node = (Inr ?result, ?c, ?w2)"
    by (simp add: dispatchCurrent_def executeNode_def executeConditionVariable_def Let_def
          example_node_def config_string_def js_lookup_def object_prototype_keys_def
          example_context_def)
  have nw: "\<not> waitingForInput ?c"
    by (simp add: example_context_def)
  have f: "findNextNode example_platform ?node (?c\<lparr>variables := obj_merge (variables ?c) ?result\<rparr>) =
             Inr None"
    by (simp add: findNextNode_def outgoingEdges_def branching_graph_def example_node_def
          example_edge_def example_context_def)
  have x: "executions ?w (executionId ?c) \<noteq> None"
    by (simp add: example_world_def example_context_def)
  from findNextNode_takes_first_match
         [where c = ?c and node = ?node and P = example_platform and w = ?w and result = ?result
            and ?c1.0 = ?c and ?w2.0 = ?w2 and fuel = 0
            and ctx = "?c\<lparr>variables := obj_merge (variables ?c) ?result\<rparr>"]
       n d nw f x
  have "\<exists>final ex. processNextNode (Suc 0) example_platform ?c ?w = Some (Inr (), final)
          \<and> getWorkflowState (conversationId ?c) final = None
          \<and> executions final (executionId ?c) = Some ex \<and> ex_status ex = COMPLETED
          \<and> dispatch_count final = Suc (dispatch_count ?w)"
    by blast
  then have "\<exists>final ex. processNextNode 1 example_platform ?c ?w = Some (Inr (), final)
          \<and> getWorkflowState ''conv1'' final = None
          \<and> executions final ''exec1'' = Some ex \<and> ex_status ex = COMPLETED
          \<and> dispatch_count final = 1"
    by (simp add: example_context_def dispatch_count_def example_world_def)
  with first show ?thesis by blast
qed

text \<open>
  C4 as stated says that for every assignment of the variables the router returns the
  target of the first edge that has no condition or whose condition is true. At a node
  whose first edge is guarded by \<^verbatim>\<open>reply contains "yes"\<close> and whose second edge has no
  condition, with the variable \<^verbatim>\<open>reply\<close> holding the JSON object \<^verbatim>\<open>{"toString": 1}\<close>, that
  first such edge is the second one, to \<open>C\<close>; the router raises a \<^verbatim>\<open>TypeError\<close> and
  returns nothing.
\<close>

theorem findNextNode_raises_counterexample:
  "first_match example_platform [(''reply'', JObj [(''toString'', JNum (Fin 1))])]
     (outgoingEdges guarded_graph ''A'') = Some ''C''
   \<and> findNextNode example_platform (example_node ''A'' ''CONDITION_VARIABLE'' [])
       (example_context guarded_graph ''A'' [(''reply'', JObj [(''toString'', JNum (Fin 1))])])
     = Inl TypeError"
  by (simp add: first_match_def edge_taken_def findNextNode_def outgoingEdges_def
        guarded_graph_def example_node_def example_edge_def example_context_def
        evaluateCondition_def bindE_def js_prop_def js_lookup_def string_includes_def Let_def)


section \<open>Inbound messages\<close>

lemma acquire_free:
  "locks w k = None \<Longrightarrow>
     acquireWithRetries (Suc n) k v w = (True, w\<lparr>locks := (locks w)(k \<mapsto> v)\<rparr>)"
  by (simp add: acquire_def)

lemma acquire_held:
  "locks w k \<noteq> None \<Longrightarrow> acquireWithRetries n k v w = (False, w)"
  by (induction n) (auto simp: acquire_def)

lemma withLock_free:
  assumes "locks w (''lock:'' @ resource) = None"
    and "fn (w\<lparr>locks := (locks w)(''lock:'' @ resource \<mapsto> tok)\<rparr>) = (r, w')"
  shows "withLock (Suc n) tok resource fn w = (r, release (''lock:'' @ resource) tok w')"
  unfolding withLock_def acquire_free [OF assms(1)] using assms(2) by simp

lemma withLock_held:
  assumes "locks w (''lock:'' @ resource) \<noteq> None"
  shows "withLock n tok resource fn w =
           (Inl (JsError (''Failed to acquire lock for resource: '' @ resource)), w)"
  unfolding withLock_def acquire_held [OF assms] by simp

lemma release_after_acquire:
  "locks w k = None \<Longrightarrow> release k v (w\<lparr>locks := (locks w)(k \<mapsto> v)\<rparr>) = w"
  by (simp add: release_def fun_upd_idem)

lemma handleMessageLocked_no_context:
  "getContext cid w = None \<Longrightarrow> handleMessageLocked P cid msg meta w = (Inr (None, None), w)"
  by (simp add: handleMessageLocked_def)

lemma getContext_locks [simp]: "getContext cid (w\<lparr>locks := l\<rparr>) = getContext cid w"
  by (simp add: getContext_def)

text \<open>
  C8. For every conversation that has no persisted context, \<^verbatim>\<open>handleMessageInWorkflow\<close>
  leaves the world as it found it: no context is created or written, no node is
  dispatched, no message is sent, and the lock it took is released. Having acquired the
  lock it answers \<^verbatim>\<open>null\<close> (the workflow is not handling the message) and starts no
  burst; when the lock is held by another delivery it throws the lock error instead,
  again without any effect.
\<close>

theorem handleMessage_without_context:
  assumes "getWorkflowState cid w = None"
  shows "snd (handleMessageInWorkflow P tok cid msg meta w) = w
       \<and> (locks w (''lock:workflow:exec:'' @ cid) = None \<longrightarrow>
            fst (handleMessageInWorkflow P tok cid msg meta w) = Inr (None, None))
       \<and> (locks w (''lock:workflow:exec:'' @ cid) \<noteq> None \<longrightarrow>
            fst (handleMessageInWorkflow P tok cid msg meta w) =
              Inl (JsError (''Failed to acquire lock for resource: workflow:exec:'' @ cid)))"
proof (cases "locks w (''lock:workflow:exec:'' @ cid) = None")
  case True
  have n: "getContext cid (w\<lparr>locks := (locks w)(''lock:'' @ (''workflow:exec:'' @ cid) \<mapsto> tok)\<rparr>) = None"
    using assms by (simp add: getWorkflowState_def)
  have "handleMessageInWorkflow P tok cid msg meta w = (Inr (None, None), w)"
    unfolding handleMessageInWorkflow_def
    using withLock_free [of w "''workflow:exec:'' @ cid" "handleMessageLocked P cid msg meta" tok
                            "Inr (None, None)" _ 4]
      handleMessageLocked_no_context [OF n] True release_after_acquire [of w "''lock:workflow:exec:'' @ cid" tok]
    by (simp add: eval_nat_numeral)
  with True show ?thesis by simp
next
  case False
  then show ?thesis
    unfolding handleMessageInWorkflow_def
    using withLock_held [of w "''workflow:exec:'' @ cid" 5 tok "handleMessageLocked P cid msg meta"]
    by simp
qed

lemma handleMessageLocked_invalid:
  assumes "getContext cid w = Some ctx" "waitingForInput ctx"
    and "expectedInputValidation ctx = Some v" "validateInput P msg v = Inr r" "\<not> vr_valid r"
  shows "handleMessageLocked P cid msg meta w =
           (Inr (Some \<lparr>shouldRespond = True,
                        response = Some (or_default (vr_errorMessage r)
                                           ''Invalid input. Please try again.''),
                        continueWorkflow = False\<rparr>, None), w)"
  using assms by (simp add: handleMessageLocked_def Let_def bindE_def)


theorem handleMessage_without_context_witness:
  "handleMessageInWorkflow example_platform ''token'' ''conv1'' ''hello'' JUndefined
     (example_world None) = (Inr (None, None), example_world None)"
proof -
  from handleMessage_without_context
         [of "''conv1''" "example_world None" example_platform "''token''" "''hello''" JUndefined]
  have "snd (handleMessageInWorkflow example_platform ''token'' ''conv1'' ''hello'' JUndefined
               (example_world None)) = example_world None
        \<and> fst (handleMessageInWorkflow example_platform ''token'' ''conv1'' ''hello'' JUndefined
               (example_world None)) = Inr (None, None)"
    by (simp add: getWorkflowState_def getContext_def example_world_def)
  then show ?thesis by (simp add: prod_eq_iff)
qed

text \<open>
  C7. For every suspended conversation whose context carries an
  \<^verbatim>\<open>expectedInputValidation\<close>, an inbound message that fails the validation is answered
  with the validation's error message for the caller to send to the user
  (\<^verbatim>\<open>shouldRespond\<close>), no burst is started, and the world is left as it was: the persisted
  context still has \<^verbatim>\<open>waitingForInput\<close> set and the same current node, and the execution
  record does not become \<^verbatim>\<open>FAILED\<close>.
\<close>

theorem failed_validation_keeps_suspended:
  assumes "getWorkflowState cid w = Some ctx" and "waitingForInput ctx"
    and "expectedInputValidation ctx = Some v"
    and "validateInput P msg v = Inr r" and "\<not> vr_valid r"
    and "locks w (''lock:workflow:exec:'' @ cid) = None"
  shows "handleMessageInWorkflow P tok cid msg meta w =
           (Inr (Some \<lparr>shouldRespond = True,
                        response = Some (or_default (vr_errorMessage r)
                                           ''Invalid input. Please try again.''),
                        continueWorkflow = False\<rparr>, None), w)"
proof -
  let ?w1 = "w\<lparr>locks := (locks w)(''lock:'' @ (''workflow:exec:'' @ cid) \<mapsto> tok)\<rparr>"
  have g: "getContext cid ?w1 = Some ctx"
    using assms(1) by (simp add: getWorkflowState_def)
  have l: "locks w (''lock:'' @ (''workflow:exec:'' @ cid)) = None"
    using assms(6) by simp
  have h: "handleMessageLocked P cid msg meta ?w1 =
             (Inr (Some \<lparr>shouldRespond = True,
                          response = Some (or_default (vr_errorMessage r)
                                             ''Invalid input. Please try again.''),
                          continueWorkflow = False\<rparr>, None), ?w1)"
    by (rule handleMessageLocked_invalid [OF g assms(2-5)])
  show ?thesis
    unfolding handleMessageInWorkflow_def
    using withLock_free [of w "''workflow:exec:'' @ cid" "handleMessageLocked P cid msg meta"
                            tok _ _ 4, OF l h]
      release_after_acquire [OF l, of tok]
    by (simp add: eval_nat_numeral)
qed

theorem failed_validation_keeps_suspended_witness:
  "handleMessageInWorkflow example_platform ''token'' ''conv1'' ''not-an-email'' JUndefined
     (example_world (Some suspended_context)) =
   (Inr (Some \<lparr>shouldRespond = True, response = Some ''Please enter a valid email address'',
                continueWorkflow = False\<rparr>, None),
    example_world (Some suspended_context))"
proof -
  have v: "validateInput example_platform ''not-an-email''
             \<lparr>iv_type = Some ''email'', iv_pattern = None, iv_errorMessage = None\<rparr> =
           Inr \<lparr>vr_valid = False,
                vr_errorMessage = Some ''Please enter a valid email address'',
                vr_extractedData = JStr ''not-an-email''\<rparr>"
    by (simp add: validateInput_def example_platform_def bindE_def or_default_def)
  from failed_validation_keeps_suspended
         [of "''conv1''" "example_world (Some suspended_context)" suspended_context
             "\<lparr>iv_type = Some ''email'', iv_pattern = None, iv_errorMessage = None\<rparr>"
             example_platform "''not-an-email''" _ "''token''" JUndefined] v
  show ?thesis
    by (simp add: getWorkflowState_def getContext_def example_world_def suspended_context_def
          example_context_def or_default_def)
qed



section \<open>Suspension\<close>

lemma waiting_burst:
  assumes "currentNode ctx = Some node"
    and "dispatchCurrent P ctx w node = (Inr result, ctx1, w2)"
    and "waitingForInput ctx1"
  shows "\<exists>final saved. processNextNode (Suc fuel) P ctx w = Some (Inr (), final)
           \<and> getWorkflowState (conversationId ctx) final = Some saved \<and> waitingForInput saved
           \<and> currentNodeId saved = currentNodeId ctx
           \<and> dispatch_count final = Suc (dispatch_count w)
           \<and> dispatches final = dispatches w @ [node_id node]"
proof -
  let ?c2 = "ctx1\<lparr>variables := obj_merge (variables ctx1) result\<rparr>"
  let ?final = "saveContext ?c2 (addExecutionLog (executionId ctx) LogWaiting w2)"
  have p: "processNextNode (Suc fuel) P ctx w = Some (Inr (), ?final)"
    by (rule processNextNode_waiting [OF assms])
  have f: "conversationId ctx1 = conversationId ctx" "currentNodeId ctx1 = currentNodeId ctx"
    using executeNode_frame assms(2) unfolding dispatchCurrent_def by blast+
  have d: "dispatch_count w2 = Suc (dispatch_count w)"
    using executeNode_dispatch_count assms(2) unfolding dispatchCurrent_def by fastforce
  have e: "dispatches w2 = dispatches w @ [node_id node]"
    using executeNode_dispatches assms(2) unfolding dispatchCurrent_def by fastforce
  have g: "getWorkflowState (conversationId ctx) ?final =
             Some (?c2\<lparr>variables := json_object (variables ?c2)\<rparr>)"
    using getWorkflowState_saveContext [of ?c2] f by simp
  show ?thesis using p g d e f assms(3) by simp
qed

lemma burst_returns_as_the_rest:
  assumes "currentNode ctx = Some node"
    and "dispatchCurrent P ctx w node = (Inr result, ctx1, w2)"
    and "\<not> waitingForInput ctx1"
    and "findNextNode P node (ctx1\<lparr>variables := obj_merge (variables ctx1) result\<rparr>) = Inr (Some t)"
    and "t \<noteq> []"
    and "processNextNode fuel P
           (ctx1\<lparr>variables := obj_merge (variables ctx1) result, currentNodeId := Some t\<rparr>)
           (saveContext
              (ctx1\<lparr>variables := obj_merge (variables ctx1) result, currentNodeId := Some t\<rparr>) w2) =
         Some (Inr (), final)"
  shows "processNextNode (Suc fuel) P ctx w = Some (Inr (), final)"
  using processNextNode_continues [OF assms(1-5), of fuel] assms(6) by simp

lemma suspended_burst:
  "processNextNode fuel P ctx w = Some (Inr u, final) \<Longrightarrow>
   getWorkflowState (conversationId ctx) final = Some saved \<Longrightarrow>
     waitingForInput saved \<and>
     (\<exists>ds. dispatches final = dispatches w @ ds \<and> ds \<noteq> [] \<and> currentNodeId saved = Some (last ds))"
proof (induction fuel arbitrary: ctx w u)
  case 0
  then show ?case by simp
next
  case (Suc fuel)
  show ?case
  proof (cases "currentNode ctx")
    case None
    with Suc.prems show ?thesis
      by (auto simp: processNextNode.simps(2) currentNode_def
               dest: completeRun_succeeds split: option.splits if_splits)
  next
    case (Some node)
    obtain r c1 w2 where d: "dispatchCurrent P ctx w node = (r, c1, w2)"
      by (metis prod_cases3)
    then have x: "executeNode P node ctx
                    (addExecutionLog (executionId ctx)
                       (LogExecuting (node_label node) (node_type node)) w) = (r, c1, w2)"
      by (simp add: dispatchCurrent_def)
    have f: "conversationId c1 = conversationId ctx" "currentNodeId c1 = currentNodeId ctx"
      using executeNode_frame [OF x] by simp_all
    have e: "dispatches w2 = dispatches w @ [node_id node]"
      using executeNode_dispatches [OF x] by simp
    show ?thesis
    proof (cases r)
      case (Inl e')
      with processNextNode_throws [OF Some, of P w e' c1 w2 fuel] d Suc.prems
      show ?thesis by (simp add: logAndRethrow_def)
    next
      case (Inr result)
      let ?c2 = "c1\<lparr>variables := obj_merge (variables c1) result\<rparr>"
      show ?thesis
      proof (cases "waitingForInput c1")
        case True
        from processNextNode_waiting [OF Some, of P w result c1 w2 fuel] d Inr True Suc.prems(1)
        have w': "final = saveContext ?c2 (addExecutionLog (executionId ctx) LogWaiting w2)"
          by simp
        then have "saved = ?c2\<lparr>variables := json_object (variables ?c2)\<rparr>"
          using Suc.prems(2) f getWorkflowState_saveContext [of ?c2] by simp
        then have "waitingForInput saved" "currentNodeId saved = Some (node_id node)"
          using True f currentNode_id [OF Some] by simp_all
        moreover have "dispatches final = dispatches w @ [node_id node]"
          using w' e by simp
        ultimately show ?thesis by simp
      next
        case False
        show ?thesis
        proof (cases "findNextNode P node ?c2")
          case (Inl e')
          with Suc.prems Some d Inr False show ?thesis
            by (auto simp: processNextNode.simps(2) currentNode_def dispatchCurrent_def Let_def
                  logAndRethrow_def split: option.splits if_splits)
        next
          case nx: (Inr nextNodeId)
          show ?thesis
          proof (cases "nextNodeId = None \<or> nextNodeId = Some []")
            case True
            with Suc.prems Some d Inr False nx f show ?thesis
              by (auto simp: processNextNode.simps(2) currentNode_def dispatchCurrent_def Let_def
                    logAndRethrow_def dest!: completeRun_succeeds
                    split: option.splits if_splits prod.splits sum.splits)
          next
            case F2: False
            then obtain t where t: "nextNodeId = Some t" "t \<noteq> []" by auto
            let ?c3 = "c1\<lparr>variables := obj_merge (variables c1) result, currentNodeId := Some t\<rparr>"
            from processNextNode_continues [OF Some, of P w result c1 w2 t fuel] d Inr False nx t
            have p: "processNextNode (Suc fuel) P ctx w =
                       (case processNextNode fuel P ?c3 (saveContext ?c3 w2) of
                          None \<Rightarrow> None
                        | Some (Inl e, w4) \<Rightarrow> Some (logAndRethrow ctx e w4)
                        | Some (Inr u, w4) \<Rightarrow> Some (Inr (), w4))"
              by simp
            with Suc.prems(1) obtain u' where
              i: "processNextNode fuel P ?c3 (saveContext ?c3 w2) = Some (Inr u', final)"
              by (auto simp: logAndRethrow_def split: option.splits sum.splits prod.splits)
            have g: "getWorkflowState (conversationId ?c3) final = Some saved"
              using Suc.prems(2) f by simp
            from Suc.IH [OF i g] obtain ds where
              ds: "waitingForInput saved" "dispatches final = dispatches (saveContext ?c3 w2) @ ds"
                "ds \<noteq> []" "currentNodeId saved = Some (last ds)"
              by blast
            then have "dispatches final = dispatches w @ (node_id node # ds)"
                "node_id node # ds \<noteq> []" "currentNodeId saved = Some (last (node_id node # ds))"
              using e by simp_all
            with ds(1) show ?thesis by blast
          qed
        qed
      qed
    qed
  qed
qed

lemma initialize_existing:
  "getWorkflowState cid w = Some c \<Longrightarrow>
     initializeWorkflowForConversation eid cid wid d w = (Inr (AlreadyRunning c), w)"
  by (simp add: initializeWorkflowForConversation_def getWorkflowState_def)

lemma handleMessageLocked_no_burst:
  "handleMessageLocked P cid msg meta w = (r, w') \<Longrightarrow> started_burst r = None \<Longrightarrow> w' = w"
  by (auto simp: handleMessageLocked_def started_burst_def Let_def bindE_def
           split: option.splits if_splits sum.splits prod.splits)

lemma handleMessageLocked_burst:
  assumes "handleMessageLocked P cid msg meta w = (r, w')" and "started_burst r = Some started"
    and "getWorkflowState cid w = Some c" and "conversationId c = cid"
  shows "\<not> waitingForInput started \<and>
         (\<exists>saved. getWorkflowState cid w' = Some saved \<and> \<not> waitingForInput saved)"
  using assms
  by (auto simp: handleMessageLocked_def started_burst_def Let_def bindE_def
                 getWorkflowState_def getContext_def saveContext_def
           split: option.splits if_splits sum.splits prod.splits)

text \<open>
  C5. Whenever the dispatch of a node returns with \<^verbatim>\<open>waitingForInput\<close> set, the call of
  \<^verbatim>\<open>processNextNode\<close> returns at once, whatever bound it was given: the context is
  persisted with \<^verbatim>\<open>waitingForInput\<close> set and the current node unchanged, and this call has
  dispatched exactly this one node. A call whose node did not suspend and that went on to
  the next node returns when the rest of the burst returns, in the very world the rest
  left: nothing is dispatched or written on the way back. So in every burst that returns
  and leaves a context stored, the stored context has \<^verbatim>\<open>waitingForInput\<close> set and its
  current node is the last node the burst dispatched. While a context is stored for the
  conversation, \<^verbatim>\<open>initializeWorkflowForConversation\<close> returns it and starts nothing. An
  inbound message that starts no burst leaves the world unchanged; one that starts a
  burst has first cleared \<^verbatim>\<open>waitingForInput\<close>, in the context the burst runs on and in
  the stored one.
\<close>

theorem waiting_for_input_stops_burst:
  "(currentNode ctx = Some node \<and> dispatchCurrent P ctx w node = (Inr result, ctx1, w2) \<and>
    waitingForInput ctx1 \<longrightarrow>
      (\<exists>final saved.
         processNextNode (Suc fuel) P ctx w = Some (Inr (), final)
         \<and> getWorkflowState (conversationId ctx) final = Some saved
         \<and> waitingForInput saved \<and> currentNodeId saved = currentNodeId ctx
         \<and> dispatch_count final = Suc (dispatch_count w)
         \<and> dispatches final = dispatches w @ [node_id node]))
   \<and> (currentNode ctx = Some node \<and> dispatchCurrent P ctx w node = (Inr result, ctx1, w2) \<and>
       \<not> waitingForInput ctx1 \<and>
       findNextNode P node (ctx1\<lparr>variables := obj_merge (variables ctx1) result\<rparr>) = Inr (Some t) \<and>
       t \<noteq> [] \<and>
       processNextNode fuel P
         (ctx1\<lparr>variables := obj_merge (variables ctx1) result, currentNodeId := Some t\<rparr>)
         (saveContext
            (ctx1\<lparr>variables := obj_merge (variables ctx1) result, currentNodeId := Some t\<rparr>) w2) =
       Some (Inr (), rest) \<longrightarrow>
        processNextNode (Suc fuel) P ctx w = Some (Inr (), rest))
   \<and> (processNextNode bound P c0 w0 = Some (Inr (), w9) \<and>
       getWorkflowState (conversationId c0) w9 = Some kept \<longrightarrow>
        waitingForInput kept \<and>
        (\<exists>ds. dispatches w9 = dispatches w0 @ ds \<and> ds \<noteq> [] \<and>
              currentNodeId kept = Some (last ds)))
   \<and> (getWorkflowState cid v = Some c \<longrightarrow>
        initializeWorkflowForConversation eid cid wid d v = (Inr (AlreadyRunning c), v))
   \<and> (handleMessageLocked P cid msg meta v = (r, v') \<and> started_burst r = None \<longrightarrow> v' = v)
   \<and> (handleMessageLocked P cid msg meta v = (r, v') \<and> started_burst r = Some started \<and>
       getWorkflowState cid v = Some c \<and> conversationId c = cid \<longrightarrow>
        \<not> waitingForInput started \<and>
        (\<exists>saved. getWorkflowState cid v' = Some saved \<and> \<not> waitingForInput saved))"
  using waiting_burst [of ctx node P w result ctx1 w2 fuel]
    burst_returns_as_the_rest [of ctx node P w result ctx1 w2 t fuel rest]
    suspended_burst [of bound P c0 w0 "()" w9 kept]
    initialize_existing [of cid v c eid wid d]
    handleMessageLocked_no_burst [of P cid msg meta v r v']
    handleMessageLocked_burst [of P cid msg meta v r v' started c]
  by blast

lemma asking_entry:
  "find (\<lambda>n. \<not> list_ex (\<lambda>e. targetNodeId e = node_id n) (edges asking_graph))
     (nodes asking_graph) =
   Some (example_node ''greet'' ''ACTION_MESSAGE''
           [(''message'', JStr ''Hello''), (''waitForResponse'', JBool False)])"
  by (simp add: asking_graph_def example_node_def example_edge_def)

theorem waiting_for_input_stops_burst_witness:
  "\<exists>ctx w1 final saved.
     initializeWorkflowForConversation ''exec1'' ''conv1'' ''wf1'' None (graph_world asking_graph) =
       (Inr (Started ''exec1'' ctx), w1)
     \<and> processNextNode 5 example_platform ctx w1 = Some (Inr (), final)
     \<and> getWorkflowState ''conv1'' final = Some saved
     \<and> waitingForInput saved \<and> currentNodeId saved = Some ''ask''
     \<and> dispatches final = [''greet'', ''ask'']"
proof -
  let ?greet = "example_node ''greet'' ''ACTION_MESSAGE''
                  [(''message'', JStr ''Hello''), (''waitForResponse'', JBool False)]"
  let ?ask = "example_node ''ask'' ''TRIGGER_USER_INPUT'' [(''prompt'', JStr ''Your e-mail?'')]"
  let ?ctx = "example_context asking_graph ''greet'' []"
  let ?w1 = "started_world asking_graph ''greet''"
  have i: "initializeWorkflowForConversation ''exec1'' ''conv1'' ''wf1'' None
             (graph_world asking_graph) = (Inr (Started ''exec1'' ?ctx), ?w1)"
    using graph_initialize [OF asking_entry] by (simp add: example_node_def)
  let ?sent = "[(''messageSent'', JBool True)]"
  let ?w2 = "snd (snd (dispatchCurrent example_platform ?ctx ?w1 ?greet))"
  have n1: "currentNode ?ctx = Some ?greet"
    by (simp add: currentNode_def example_context_def asking_graph_def example_node_def)
  have d1: "dispatchCurrent example_platform ?ctx ?w1 ?greet = (Inr ?sent, ?ctx, ?w2)"
    by (simp add: dispatchCurrent_def executeNode_def executeActionMessage_def Let_def
          example_node_def config_string_def js_lookup_def interpolate_no_variables
          example_context_def)
  have e1: "dispatches ?w2 = [''greet'']"
    by (simp add: dispatchCurrent_def executeNode_def executeActionMessage_def Let_def
          example_node_def config_string_def js_lookup_def interpolate_no_variables
          example_context_def dispatches_def started_world_def graph_world_def
          example_world_def saveContext_def sendMessageToUser_def)
  have nw: "\<not> waitingForInput ?ctx"
    by (simp add: example_context_def)
  let ?c3 = "?ctx\<lparr>variables := obj_merge (variables ?ctx) ?sent, currentNodeId := Some ''ask''\<rparr>"
  let ?w3 = "saveContext ?c3 ?w2"
  have f1: "findNextNode example_platform ?greet
              (?ctx\<lparr>variables := obj_merge (variables ?ctx) ?sent\<rparr>) = Inr (Some ''ask'')"
    by (simp add: findNextNode_def outgoingEdges_def asking_graph_def example_node_def
          example_edge_def example_context_def)
  let ?asked = "[(''waitingForInput'', JBool True)]"
  let ?c4 = "?c3\<lparr>waitingForInput := True\<rparr>"
  let ?w4 = "snd (snd (dispatchCurrent example_platform ?c3 ?w3 ?ask))"
  have n2: "currentNode ?c3 = Some ?ask"
    by (simp add: currentNode_def example_context_def asking_graph_def example_node_def)
  have d2: "dispatchCurrent example_platform ?c3 ?w3 ?ask = (Inr ?asked, ?c4, ?w4)"
    by (simp add: dispatchCurrent_def executeNode_def executeTriggerUserInput_def Let_def
          example_node_def)
  have w4: "waitingForInput ?c4"
    by simp
  from waiting_for_input_stops_burst
         [where ctx = ?c3 and node = ?ask and P = example_platform and w = ?w3
            and result = ?asked and ?ctx1.0 = ?c4 and ?w2.0 = ?w4 and fuel = 3,
          THEN conjunct1]
       n2 d2 w4
  obtain final saved where
    p2: "processNextNode (Suc 3) example_platform ?c3 ?w3 = Some (Inr (), final)"
    and s: "getWorkflowState (conversationId ?c3) final = Some saved" "waitingForInput saved"
      "currentNodeId saved = currentNodeId ?c3"
      "dispatches final = dispatches ?w3 @ [node_id ?ask]"
    by blast
  from waiting_for_input_stops_burst
         [where ctx = ?ctx and node = ?greet and P = example_platform and w = ?w1
            and result = ?sent and ?ctx1.0 = ?ctx and ?w2.0 = ?w2 and fuel = "Suc 3"
            and t = "''ask''" and rest = final, THEN conjunct2, THEN conjunct1]
       n1 d1 nw f1 p2
  have p1: "processNextNode (Suc (Suc 3)) example_platform ?ctx ?w1 = Some (Inr (), final)"
    by simp
  have "processNextNode 5 example_platform ?ctx ?w1 = Some (Inr (), final)"
    using p1 by (simp add: eval_nat_numeral)
  moreover have "getWorkflowState ''conv1'' final = Some saved"
    using s(1) by (simp add: example_context_def)
  moreover have "currentNodeId saved = Some ''ask''"
    using s(3) by simp
  moreover have "dispatches final = [''greet'', ''ask'']"
    using s(4) e1 by (simp add: example_node_def)
  ultimately show ?thesis using i s(2) by blast
qed


section \<open>Retries in the synchronous engine\<close>

lemma ws_retryLoop_all_fail:
  assumes "\<forall>k. executeNodeByType P node (ws_variables st) k = Inl (err k)"
  shows "ws_retryLoop P node (Fin (of_nat (a + Suc k))) a st =
           Some (exhausted_outcome P node (err (a + Suc k)),
                 st\<lparr>ws_trace := ws_trace st @ failed_attempts (node_id node) err a (Suc k)
                                     @ exhausted_events node\<rparr>)"
  using assms
proof (induction k arbitrary: a st)
  case 0
  then show ?case
    by (subst ws_retryLoop.simps)
       (simp add: Let_def num_ge_def exhausted_outcome_def exhausted_events_def)
next
  case (Suc k)
  let ?st' = "st\<lparr>ws_trace := ws_trace st @ [EvAttempt (node_id node) (a + 1)] @
                    [EvWarnRetry (node_id node) (a + 1), EvSleep (1000 * (a + 1))]\<rparr>"
  have f: "\<forall>j. executeNodeByType P node (ws_variables ?st') j = Inl (err j)"
    using Suc.prems by simp
  have step: "ws_retryLoop P node (Fin (of_nat (a + Suc (Suc k)))) a st =
                ws_retryLoop P node (Fin (of_nat (a + Suc (Suc k)))) (a + 1) ?st'"
    using Suc.prems by (subst ws_retryLoop.simps) (simp add: Let_def num_ge_def)
  have "ws_retryLoop P node (Fin (of_nat (Suc a + Suc k))) (Suc a) ?st' =
          Some (exhausted_outcome P node (err (Suc a + Suc k)),
                ?st'\<lparr>ws_trace := ws_trace ?st' @ failed_attempts (node_id node) err (Suc a) (Suc k)
                                     @ exhausted_events node\<rparr>)"
    by (rule Suc.IH [OF f])
  with step show ?case by simp
qed

lemma attempts_of_append [simp]: "attempts_of (xs @ ys) = attempts_of xs @ attempts_of ys"
  by (induction xs rule: attempts_of.induct) simp_all

lemma pauses_of_append [simp]: "pauses_of (xs @ ys) = pauses_of xs @ pauses_of ys"
  by (induction xs rule: pauses_of.induct) simp_all

lemma attempts_of_failed:
  "attempts_of (failed_attempts nid err a k) = [a + 1 ..< a + k + 1]"
proof (induction nid err a k rule: failed_attempts.induct)
  case (3 nid err a k)
  then show ?case by (simp add: upt_rec [of "Suc a"])
qed simp_all

lemma pauses_of_failed:
  "pauses_of (failed_attempts nid err a k) = map (\<lambda>i. 1000 * i) [a + 1 ..< a + k]"
proof (induction nid err a k rule: failed_attempts.induct)
  case (3 nid err a k)
  then show ?case by (simp add: upt_rec [of "Suc a"])
qed simp_all

lemma attempts_of_exhausted [simp]: "attempts_of (exhausted_events node) = []"
  by (simp add: exhausted_events_def)

lemma pauses_of_exhausted [simp]: "pauses_of (exhausted_events node) = []"
  by (simp add: exhausted_events_def)




text \<open>
  The configured \<open>maxRetries\<close> is compared as JavaScript compares it. The string
  \<^verbatim>\<open>"2"\<close> grants two attempts; a value that converts to \<^verbatim>\<open>NaN\<close> grants none, and the
  result the code then reads was never assigned; an object with an own \<^verbatim>\<open>toString\<close>
  property makes the first comparison throw.
\<close>

lemma string_maxRetries_is_converted:
  assumes "js_lookup (node_config node) ''retryOnError'' = JBool True"
    and "js_lookup (node_config node) ''maxRetries'' = JStr ''2''"
    and "stringToNumber P ''2'' = Fin 2"
    and "\<forall>k. executeNodeByType P node (ws_variables st) k = Inl (err k)"
  shows "\<exists>outcome final. ws_executeAttempts P node st = Some (outcome, final)
           \<and> attempts_of (ws_trace final) = attempts_of (ws_trace st) @ [1, 2]"
proof -
  have m: "js_ToNumber P (maxRetriesOf (node_config node)) = Inr (Fin (of_nat (0 + Suc 1)))"
    using assms(1-3) by (simp add: maxRetriesOf_def)
  show ?thesis
    unfolding ws_executeAttempts_def m
    using ws_retryLoop_all_fail [OF assms(4), of 0 1]
    by (simp add: eval_nat_numeral)
qed

lemma nan_maxRetries_no_attempt:
  assumes "js_ToNumber P (maxRetriesOf (node_config node)) = Inr NaN"
  shows "ws_executeAttempts P node st = Some (Inr None, st)
       \<and> ws_afterAttempts (Inr None) = Throws TypeError"
  unfolding ws_executeAttempts_def assms
  by (subst ws_retryLoop.simps) (simp add: ws_afterAttempts_def)

lemma unconvertible_maxRetries_throws:
  assumes "js_lookup (node_config node) ''retryOnError'' = JBool True"
    and "js_lookup (node_config node) ''maxRetries'' = JObj [(''toString'', JNum (Fin 1))]"
  shows "ws_executeAttempts P node st = Some (Inl TypeError, st)"
  using assms by (simp add: ws_executeAttempts_def maxRetriesOf_def)

text \<open>
  A node type the synchronous engine does not recognize: every call of
  \<^verbatim>\<open>executeNodeByType\<close> throws \<^verbatim>\<open>Unknown node type\<close>, and the loop of attempts treats
  that error as any other. A node of the type \<^verbatim>\<open>ACTION_WAIT_FOR_INPUT\<close>, which only the persisted engine executes, with
  \<^verbatim>\<open>retryOnError\<close> and \<^verbatim>\<open>maxRetries = 2\<close> is attempted twice, with a pause of 1000 ms in
  between; with \<^verbatim>\<open>continueOnError\<close> the error is replaced by a failed result and the
  engine goes on to the outgoing edges.
\<close>

lemma executeNodeByType_unknown:
  "node_type node \<notin> set ws_node_types \<Longrightarrow>
     executeNodeByType P node vars k = Inl (unknown_type_error node)"
  by (simp add: executeNodeByType_def unknown_type_error_def)

lemma ws_executeAttempts_unknown:
  assumes "node_type node \<notin> set ws_node_types"
    and "js_ToNumber P (maxRetriesOf (node_config node)) = Inr (Fin (of_nat (Suc n)))"
  shows "ws_executeAttempts P node st =
           Some (exhausted_outcome P node (unknown_type_error node),
                 st\<lparr>ws_trace := ws_trace st @
                   failed_attempts (node_id node) (\<lambda>k. unknown_type_error node) 0 (Suc n)
                   @ exhausted_events node\<rparr>)"
proof -
  have f: "\<forall>k. executeNodeByType P node (ws_variables st) k = Inl (unknown_type_error node)"
    using assms(1) by (simp add: executeNodeByType_unknown)
  show ?thesis
    unfolding ws_executeAttempts_def assms(2)
    using ws_retryLoop_all_fail [OF f, of 0 n] by simp
qed

lemma unknown_type_attempted_twice:
  "\<exists>outcome final.
     ws_executeAttempts example_platform
       (unknown_node [(''retryOnError'', JBool True), (''maxRetries'', JNum (Fin 2))])
       \<lparr>ws_variables = [], ws_trace = []\<rparr> = Some (outcome, final)
     \<and> outcome = Inl (WorkflowError ''Unknown node type: ACTION_WAIT_FOR_INPUT'' 400)
     \<and> attempts_of (ws_trace final) = [1, 2] \<and> pauses_of (ws_trace final) = [1000]"
proof -
  let ?node = "unknown_node [(''retryOnError'', JBool True), (''maxRetries'', JNum (Fin 2))]"
  have a: "node_type ?node \<notin> set ws_node_types"
    by (simp add: unknown_node_def example_node_def ws_node_types_def)
  have m: "js_ToNumber example_platform (maxRetriesOf (node_config ?node)) =
             Inr (Fin (of_nat (Suc 1)))"
    by (simp add: maxRetriesOf_def unknown_node_def example_node_def js_lookup_def)
  from ws_executeAttempts_unknown [OF a m, of "\<lparr>ws_variables = [], ws_trace = []\<rparr>"]
  show ?thesis
    by (simp add: exhausted_events_def exhausted_outcome_def unknown_type_error_def
          unknown_node_def example_node_def js_lookup_def object_prototype_keys_def)
qed

lemma unknown_type_continue_on_error:
  "truthy (js_lookup (node_config node) ''continueOnError'') \<Longrightarrow>
     ws_afterAttempts (exhausted_outcome P node (unknown_type_error node)) =
       RoutesToOutgoingEdges"
  by (simp add: exhausted_outcome_def ws_afterAttempts_def)


section \<open>Node types the persisted engine does not recognize\<close>

text \<open>
  The two engines do not recognize the same node types: each has types in its \<^verbatim>\<open>switch\<close>
  that the other lacks.
\<close>

lemma engines_recognize_different_types:
  "''FLOW_LOOP'' \<in> set ws_node_types \<and> ''FLOW_LOOP'' \<notin> set recognized_node_types
   \<and> ''ACTION_WAIT_FOR_INPUT'' \<in> set recognized_node_types
   \<and> ''ACTION_WAIT_FOR_INPUT'' \<notin> set ws_node_types"
  by (simp add: ws_node_types_def recognized_node_types_def external_node_types_def)

lemma executeNode_unrecognized_type:
  "node_type node \<notin> set recognized_node_types \<Longrightarrow>
     executeNode P node ctx w =
       (Inr [], ctx,
        w\<lparr>applog := applog w @ [ExecutingNode (node_id node),
                                  UnknownNodeType (node_type node) (node_id node)]\<rparr>)"
  by (simp add: executeNode_def recognized_node_types_def Let_def)

lemma dispatch_unrecognized_type:
  "node_type node \<notin> set recognized_node_types \<Longrightarrow>
     dispatchCurrent P ctx w node = (Inr [], ctx, warned_world ctx node w)"
  by (simp add: dispatchCurrent_def executeNode_unrecognized_type warned_world_def)

text \<open>
  C3 does not hold of the persisted engine. For every node whose type is not among the
  types its \<^verbatim>\<open>executeNode\<close> recognizes, the dispatch raises no error: it writes the log
  entry and a warning and answers the empty result, leaving the context as it was. The
  run is not failed: \<^verbatim>\<open>processNextNode\<close> goes on with the node the router names, and
  when the router names none it marks the execution, whose record is there,
  \<^verbatim>\<open>COMPLETED\<close>.
\<close>

theorem unrecognized_type_is_skipped:
  assumes "currentNode ctx = Some node" and "node_type node \<notin> set recognized_node_types"
    and "\<not> waitingForInput ctx"
  shows "dispatchCurrent P ctx w node = (Inr [], ctx, warned_world ctx node w)
       \<and> (findNextNode P node ctx = Inr (Some t) \<and> t \<noteq> [] \<longrightarrow>
            processNextNode (Suc fuel) P ctx w =
              (case processNextNode fuel P (ctx\<lparr>currentNodeId := Some t\<rparr>)
                      (saveContext (ctx\<lparr>currentNodeId := Some t\<rparr>) (warned_world ctx node w)) of
                 None \<Rightarrow> None
               | Some (Inl e, w4) \<Rightarrow> Some (logAndRethrow ctx e w4)
               | Some (Inr u, w4) \<Rightarrow> Some (Inr (), w4)))
       \<and> (findNextNode P node ctx = Inr None \<and> executions w (executionId ctx) \<noteq> None \<longrightarrow>
            (\<exists>final ex. processNextNode (Suc fuel) P ctx w = Some (Inr (), final)
               \<and> executions final (executionId ctx) = Some ex \<and> ex_status ex = COMPLETED))"
proof (intro conjI impI)
  show d: "dispatchCurrent P ctx w node = (Inr [], ctx, warned_world ctx node w)"
    by (rule dispatch_unrecognized_type [OF assms(2)])
  have m: "ctx\<lparr>variables := obj_merge (variables ctx) []\<rparr> = ctx"
    by (simp add: obj_merge_def)
  {
    assume a: "findNextNode P node ctx = Inr (Some t) \<and> t \<noteq> []"
    then have f: "findNextNode P node (ctx\<lparr>variables := obj_merge (variables ctx) []\<rparr>) =
                    Inr (Some t)"
      using m by simp
    from processNextNode_continues [OF assms(1) d assms(3) f, of fuel] a m
    show "processNextNode (Suc fuel) P ctx w =
              (case processNextNode fuel P (ctx\<lparr>currentNodeId := Some t\<rparr>)
                      (saveContext (ctx\<lparr>currentNodeId := Some t\<rparr>) (warned_world ctx node w)) of
                 None \<Rightarrow> None
               | Some (Inl e, w4) \<Rightarrow> Some (logAndRethrow ctx e w4)
               | Some (Inr u, w4) \<Rightarrow> Some (Inr (), w4))"
      by simp
  }
  {
    assume a: "findNextNode P node ctx = Inr None \<and> executions w (executionId ctx) \<noteq> None"
    then have f: "findNextNode P node (ctx\<lparr>variables := obj_merge (variables ctx) []\<rparr>) = Inr None"
      using m by simp
    have "executions (warned_world ctx node w) (executionId ctx) \<noteq> None"
      using a addExecutionLog_executions [of "executionId ctx" _ w "executionId ctx"]
      by (simp add: warned_world_def)
    then obtain ex where ex: "executions (warned_world ctx node w) (executionId ctx) = Some ex"
      by auto
    from processNextNode_ends [OF assms(1) d assms(3) f, of fuel] m completeRun_effect [OF ex]
    show "\<exists>final ex. processNextNode (Suc fuel) P ctx w = Some (Inr (), final)
               \<and> executions final (executionId ctx) = Some ex \<and> ex_status ex = COMPLETED"
      by (simp add: deleteContext_def)
  }
qed

lemma skipping_entry:
  "find (\<lambda>n. \<not> list_ex (\<lambda>e. targetNodeId e = node_id n) (edges skipping_graph))
     (nodes skipping_graph) = Some (example_node ''loop'' ''FLOW_LOOP'' [])"
  by (simp add: skipping_graph_def example_node_def example_edge_def)

theorem unrecognized_type_is_skipped_witness:
  "\<exists>ctx w1 final ex.
     initializeWorkflowForConversation ''exec1'' ''conv1'' ''wf1'' None
       (graph_world skipping_graph) = (Inr (Started ''exec1'' ctx), w1)
     \<and> currentNodeId ctx = Some ''loop''
     \<and> runBurst 3 example_platform ctx w1 = Some final
     \<and> executions final ''exec1'' = Some ex \<and> ex_status ex = COMPLETED \<and> ex_error ex = None
     \<and> messages final = [(''conv1'', ''Goodbye'')]
     \<and> applog final = [ExecutingNode ''loop'', UnknownNodeType ''FLOW_LOOP'' ''loop'',
                        ExecutingNode ''bye'']"
proof -
  let ?ctx = "example_context skipping_graph ''loop'' []"
  let ?w1 = "started_world skipping_graph ''loop''"
  let ?node = "example_node ''loop'' ''FLOW_LOOP'' []"
  have i: "initializeWorkflowForConversation ''exec1'' ''conv1'' ''wf1'' None
             (graph_world skipping_graph) = (Inr (Started ''exec1'' ?ctx), ?w1)"
    using graph_initialize [OF skipping_entry] by (simp add: example_node_def)
  have n: "currentNode ?ctx = Some ?node"
    by (simp add: currentNode_def example_context_def skipping_graph_def example_node_def)
  have t: "node_type ?node \<notin> set recognized_node_types"
    by (simp add: example_node_def recognized_node_types_def external_node_types_def)
  have w: "\<not> waitingForInput ?ctx"
    by (simp add: example_context_def)
  have f: "findNextNode example_platform ?node ?ctx = Inr (Some ''bye'') \<and> ''bye'' \<noteq> []"
    by (simp add: findNextNode_def outgoingEdges_def skipping_graph_def example_node_def
          example_edge_def example_context_def)
  let ?rest = "processNextNode 2 example_platform (?ctx\<lparr>currentNodeId := Some ''bye''\<rparr>)
                 (saveContext (?ctx\<lparr>currentNodeId := Some ''bye''\<rparr>) (warned_world ?ctx ?node ?w1))"
  from unrecognized_type_is_skipped
         [OF n t w, where P = example_platform and t = "''bye''" and fuel = 2 and w = ?w1] f
  have p: "processNextNode 3 example_platform ?ctx ?w1 =
             (case ?rest of
                None \<Rightarrow> None
              | Some (Inl e, w4) \<Rightarrow> Some (logAndRethrow ?ctx e w4)
              | Some (Inr u, w4) \<Rightarrow> Some (Inr (), w4))"
    by (simp add: eval_nat_numeral)
  have r: "\<exists>final ex. ?rest = Some (Inr (), final)
             \<and> executions final ''exec1'' = Some ex \<and> ex_status ex = COMPLETED
             \<and> ex_error ex = None
             \<and> messages final = [(''conv1'', ''Goodbye'')]
             \<and> applog final = [ExecutingNode ''loop'', UnknownNodeType ''FLOW_LOOP'' ''loop'',
                                ExecutingNode ''bye'']"
    by (simp add: eval_nat_numeral processNextNode.simps(2) example_context_def
          skipping_graph_def example_node_def example_edge_def warned_world_def
          started_world_def graph_world_def example_world_def addExecutionLog_def
          saveContext_def executeNode_def executeActionMessage_def config_string_def
          js_lookup_def object_prototype_keys_def interpolate_no_variables
          sendMessageToUser_def isNextNodeCondition_def findNextNode_def outgoingEdges_def
          completeRun_def markExecutionCompleted_def deleteContext_def obj_merge_def
          json_object_def Let_def)
  from p r have "\<exists>final ex. runBurst 3 example_platform ?ctx ?w1 = Some final
             \<and> executions final ''exec1'' = Some ex \<and> ex_status ex = COMPLETED
             \<and> ex_error ex = None
             \<and> messages final = [(''conv1'', ''Goodbye'')]
             \<and> applog final = [ExecutingNode ''loop'', UnknownNodeType ''FLOW_LOOP'' ''loop'',
                                ExecutingNode ''bye'']"
    by (auto simp: runBurst_def)
  moreover have "currentNodeId ?ctx = Some ''loop''"
    by (simp add: example_context_def)
  ultimately show ?thesis using i by blast
qed

section \<open>Cyclic graphs and the loop detector\<close>

lemma cycle_step:
  assumes "workflow ctx = cycle_graph" and "\<not> waitingForInput ctx"
    and "currentNodeId ctx = Some a"
    and "(a, b) = (''S'', ''A'') \<or> (a, b) = (''A'', ''B'') \<or> (a, b) = (''B'', ''A'')"
  shows "\<exists>ctx' w'. workflow ctx' = cycle_graph \<and> \<not> waitingForInput ctx' \<and>
           currentNodeId ctx' = Some b \<and>
           processNextNode (Suc fuel) P ctx w =
             (case processNextNode fuel P ctx' w' of
                None \<Rightarrow> None
              | Some (Inl e, w4) \<Rightarrow> Some (logAndRethrow ctx e w4)
              | Some (Inr u, w4) \<Rightarrow> Some (Inr (), w4))"
proof -
  let ?node = "example_node a ''CONDITION_VARIABLE'' []"
  let ?result = "executeConditionVariable [] (variables ctx)"
  let ?w2 = "(addExecutionLog (executionId ctx) (LogExecuting (node_label ?node) (node_type ?node)) w)
               \<lparr>applog := applog (addExecutionLog (executionId ctx)
                    (LogExecuting (node_label ?node) (node_type ?node)) w) @ [ExecutingNode a]\<rparr>"
  have n: "currentNode ctx = Some ?node"
    using assms by (auto simp: currentNode_def cycle_graph_def example_node_def)
  have d: "dispatchCurrent P ctx w ?node = (Inr ?result, ctx, ?w2)"
    by (simp add: dispatchCurrent_def executeNode_def Let_def example_node_def)
  have f: "findNextNode P ?node (ctx\<lparr>variables := obj_merge (variables ctx) ?result\<rparr>) = Inr (Some b)"
    using assms
    by (auto simp: findNextNode_def outgoingEdges_def cycle_graph_def example_node_def
          example_edge_def Let_def)
  have b: "b \<noteq> []" using assms(4) by auto
  let ?ctx3 = "ctx\<lparr>variables := obj_merge (variables ctx) ?result, currentNodeId := Some b\<rparr>"
  have "processNextNode (Suc fuel) P ctx w =
          (case processNextNode fuel P ?ctx3 (saveContext ?ctx3 ?w2) of
             None \<Rightarrow> None
           | Some (Inl e, w4) \<Rightarrow> Some (logAndRethrow ctx e w4)
           | Some (Inr u, w4) \<Rightarrow> Some (Inr (), w4))"
    by (rule processNextNode_continues [OF n d assms(2) f b])
  moreover have "workflow ?ctx3 = cycle_graph" "\<not> waitingForInput ?ctx3"
      "currentNodeId ?ctx3 = Some b"
    using assms(1,2) by simp_all
  ultimately show ?thesis by blast
qed

lemma cycle_never_returns_general:
  "workflow ctx = cycle_graph \<Longrightarrow> \<not> waitingForInput ctx \<Longrightarrow>
   currentNodeId ctx = Some ''S'' \<or> currentNodeId ctx = Some ''A'' \<or>
   currentNodeId ctx = Some ''B'' \<Longrightarrow>
   processNextNode fuel P ctx w = None"
proof (induction fuel arbitrary: ctx w)
  case 0
  then show ?case by simp
next
  case (Suc fuel)
  from Suc.prems(3) obtain a b where ab: "currentNodeId ctx = Some a"
      "(a, b) = (''S'', ''A'') \<or> (a, b) = (''A'', ''B'') \<or> (a, b) = (''B'', ''A'')"
    by auto
  from cycle_step [OF Suc.prems(1,2) ab, of fuel P w]
  obtain ctx' w' where c: "workflow ctx' = cycle_graph" "\<not> waitingForInput ctx'"
      "currentNodeId ctx' = Some b"
      and p: "processNextNode (Suc fuel) P ctx w =
             (case processNextNode fuel P ctx' w' of
                None \<Rightarrow> None
              | Some (Inl e, w4) \<Rightarrow> Some (logAndRethrow ctx e w4)
              | Some (Inr u, w4) \<Rightarrow> Some (Inr (), w4))"
    by blast
  have "currentNodeId ctx' = Some ''S'' \<or> currentNodeId ctx' = Some ''A'' \<or>
        currentNodeId ctx' = Some ''B''"
    using c(3) ab(2) by auto
  from Suc.IH [OF c(1,2) this] have "processNextNode fuel P ctx' w' = None" .
  with p show ?case by simp
qed

lemma cycle_entry:
  "find (\<lambda>n. \<not> list_ex (\<lambda>e. targetNodeId e = node_id n) (edges cycle_graph))
     (nodes cycle_graph) = Some (example_node ''S'' ''CONDITION_VARIABLE'' [])"
  by (simp add: cycle_graph_def example_node_def example_edge_def)

text \<open>
  C1 does not hold of the code. The orchestrator never calls the loop detector. Take the
  graph whose entry node \<open>S\<close> leads into the two nodes \<open>A\<close> and \<open>B\<close> that lead to each
  other: wherever it is the active workflow, \<^verbatim>\<open>initializeWorkflowForConversation\<close> starts
  a run at \<open>S\<close> for a conversation that has none, and the burst it starts has not returned
  after any number of dispatches, with any initial data, so the run is never aborted,
  with a runaway error or otherwise.
\<close>

theorem cycle_never_returns:
  assumes "getWorkflowState cid w = None"
    and "workflows w wid = Some row" and "wr_isActive row" and "\<not> wr_deleted row"
    and "wr_graph row = cycle_graph"
  shows "\<exists>ctx w1.
           initializeWorkflowForConversation eid cid wid d w = (Inr (Started eid ctx), w1)
         \<and> currentNodeId ctx = Some ''S''
         \<and> (\<forall>fuel. processNextNode fuel P ctx w1 = None \<and> runBurst fuel P ctx w1 = None)"
proof -
  let ?ctx = "\<lparr>conversationId = cid, workflowId = wid, executionId = eid,
               currentNodeId = Some ''S'',
               variables = (case d of None \<Rightarrow> [] | Some v \<Rightarrow> v),
               waitingForInput = False, expectedInputType = None,
               expectedInputValidation = None, workflow = cycle_graph\<rparr>"
  let ?w1 = "saveContext ?ctx
               (w\<lparr>executions := (executions w)(eid \<mapsto>
                     \<lparr>ex_workflowId = wid, ex_conversationId = cid, ex_status = RUNNING,
                      ex_error = None, ex_logs = []\<rparr>)\<rparr>)"
  have i: "initializeWorkflowForConversation eid cid wid d w = (Inr (Started eid ?ctx), ?w1)"
    using assms
    by (simp add: initializeWorkflowForConversation_def getWorkflowState_def cycle_entry
          example_node_def Let_def)
  have n: "\<And>fuel. processNextNode fuel P ?ctx ?w1 = None"
    by (rule cycle_never_returns_general) simp_all
  then have "\<And>fuel. runBurst fuel P ?ctx ?w1 = None"
    by (simp add: runBurst_def)
  with i n show ?thesis by simp
qed

theorem cycle_never_returns_witness:
  "\<exists>ctx w1.
     initializeWorkflowForConversation ''exec1'' ''conv1'' ''wf1'' None (graph_world cycle_graph) =
       (Inr (Started ''exec1'' ctx), w1)
     \<and> currentNodeId ctx = Some ''S''
     \<and> processNextNode 1000 example_platform ctx w1 = None
     \<and> runBurst 1000 example_platform ctx w1 = None"
proof -
  have a: "getWorkflowState ''conv1'' (graph_world cycle_graph) = None"
    by (simp add: getWorkflowState_def getContext_def graph_world_def example_world_def)
  have b: "workflows (graph_world cycle_graph) ''wf1'' =
             Some \<lparr>wr_isActive = True, wr_deleted = False, wr_graph = cycle_graph\<rparr>"
    by (simp add: graph_world_def)
  from cycle_never_returns [OF a b, of "''exec1''" None example_platform]
  show ?thesis by auto
qed


text \<open>
  The detector on its own, called once for every visit: with the limit 10, visiting \<open>S\<close>
  and then \<open>A\<close> and \<open>B\<close> in turn is accepted ten times each and the eleventh visit of
  \<open>A\<close> throws the runaway error.
\<close>

lemma visitNode_known_node:
  assumes "now - startTime d \<le> maxExecutionTime d" and "length (visits d) < maxTotalNodes d"
    and "map_of (visits d) nid = Some v"
  shows "fst (visitNode now nid d) =
           (if nv_count v + 1 > maxVisitsPerNode d
            then Inl (WorkflowLoopError (InfiniteLoop nid (nv_count v + 1))) else Inr ())"
  using assms by (simp add: visitNode_def Let_def)

lemma detector_alternating:
  "fst (visitAll 0 (''S'' # concat (replicate 10 [''A'', ''B'']))
          (newLoopDetector (Some 10) None None 0))
     = Inr ()
   \<and> fst (visitAll 0 (''S'' # concat (replicate 10 [''A'', ''B'']) @ [''A''])
            (newLoopDetector (Some 10) None None 0))
     = Inl (WorkflowLoopError (InfiniteLoop ''A'' 11))"
  by (simp add: eval_nat_numeral visitNode_def newLoopDetector_def Let_def)


section \<open>Terminal states and the persisted context\<close>

lemma api_call_loopback:
  "executeActionApiCall example_platform [(''url'', JStr ''http://127.0.0.1/admin'')] [] w =
     (Inl (JsError ''Cannot call localhost or internal addresses''), w)"
  by (simp add: executeActionApiCall_def interpolate_no_variables config_string_def js_lookup_def
        validateApiUrl_def example_platform_def lowercase_def blockedHosts_def)

lemma executeActionApiCall_store:
  "executeActionApiCall P config vars w = (r, w') \<Longrightarrow> store w' = store w"
  by (auto simp: executeActionApiCall_def Let_def split: sum.splits prod.splits if_splits)

lemma executeNode_store:
  "executeNode P node ctx w = (r, ctx1, w2) \<Longrightarrow> store w2 = store w"
  by (auto simp: executeNode_def Let_def executeTriggerUserInput_def executeActionMessage_def
        executeActionWaitForInput_def sendMessageToUser_def
        dest: executeActionApiCall_store
        split: sum.splits prod.splits if_splits)

lemma addExecutionLog_store [simp]: "store (addExecutionLog eid l w) = store w"
  by (simp add: addExecutionLog_def split: option.splits)

lemma completeRun_fails_store:
  "completeRun ctx w = (Inl e, w') \<Longrightarrow> w' = w"
  by (auto simp: completeRun_def markExecutionCompleted_def split: option.splits prod.splits sum.splits)

lemma saveContext_store:
  "store (saveContext c w) k \<noteq> None \<longleftrightarrow> k = conversationId c \<or> store w k \<noteq> None"
  by (simp add: saveContext_def)

lemma failing_run_deletes_nothing:
  "processNextNode fuel P ctx w = Some (Inl e, w') \<Longrightarrow> store w k \<noteq> None \<Longrightarrow> store w' k \<noteq> None"
proof (induction fuel arbitrary: ctx w e w')
  case 0
  then show ?case by simp
next
  case (Suc fuel)
  show ?case
  proof (cases "currentNode ctx")
    case None
    with Suc.prems show ?thesis
      by (auto simp: processNextNode.simps(2) currentNode_def
               dest: completeRun_fails_store split: option.splits if_splits)
  next
    case (Some node)
    obtain r c1 w2 where d: "dispatchCurrent P ctx w node = (r, c1, w2)"
      by (metis prod_cases3)
    then have s2: "store w2 = store w"
      using executeNode_store by (fastforce simp: dispatchCurrent_def)
    show ?thesis
    proof (cases r)
      case (Inl e')
      with processNextNode_throws [OF Some, of P w e' c1 w2 fuel] d Suc.prems s2
      show ?thesis by (auto simp: logAndRethrow_def)
    next
      case (Inr result)
      let ?c2 = "c1\<lparr>variables := obj_merge (variables c1) result\<rparr>"
      show ?thesis
      proof (cases "waitingForInput c1")
        case True
        with processNextNode_waiting [OF Some, of P w result c1 w2 fuel] d Inr Suc.prems
        show ?thesis by simp
      next
        case False
        show ?thesis
        proof (cases "findNextNode P node ?c2")
          case (Inl e')
          with Suc.prems Some d Inr False s2 show ?thesis
            by (auto simp: processNextNode.simps(2) currentNode_def dispatchCurrent_def Let_def
                  logAndRethrow_def split: option.splits if_splits)
        next
          case nx: (Inr nextNodeId)
          show ?thesis
          proof (cases "nextNodeId = None \<or> nextNodeId = Some []")
            case True
            with Suc.prems Some d Inr False s2 nx show ?thesis
              by (auto simp: processNextNode.simps(2) currentNode_def dispatchCurrent_def Let_def
                    logAndRethrow_def dest: completeRun_fails_store
                    split: option.splits if_splits prod.splits sum.splits)
          next
            case F2: False
            then obtain t where t: "nextNodeId = Some t" "t \<noteq> []" by auto
            let ?c3 = "c1\<lparr>variables := obj_merge (variables c1) result, currentNodeId := Some t\<rparr>"
            from processNextNode_continues [OF Some, of P w result c1 w2 t fuel] d Inr False nx t
            have p: "processNextNode (Suc fuel) P ctx w =
                       (case processNextNode fuel P ?c3 (saveContext ?c3 w2) of
                          None \<Rightarrow> None
                        | Some (Inl e, w4) \<Rightarrow> Some (logAndRethrow ctx e w4)
                        | Some (Inr u, w4) \<Rightarrow> Some (Inr (), w4))"
              by simp
            with Suc.prems(1) obtain w4 where
              i: "processNextNode fuel P ?c3 (saveContext ?c3 w2) = Some (Inl e, w4)"
              and w': "w' = addExecutionLog (executionId ctx) (LogError e) w4"
              by (auto simp: logAndRethrow_def split: option.splits sum.splits prod.splits)
            have "store (saveContext ?c3 w2) k \<noteq> None"
              using Suc.prems(2) s2 saveContext_store [of ?c3 w2 k] by metis
            from Suc.IH [OF i this] w' show ?thesis by simp
          qed
        qed
      qed
    qed
  qed
qed

lemma markExecutionFailed_effect:
  "executions w eid = Some ex \<Longrightarrow>
     snd (markExecutionFailed eid e w) =
       w\<lparr>executions := (executions w)(eid \<mapsto> ex\<lparr>ex_status := FAILED, ex_error := Some e\<rparr>)\<rparr>"
  by (simp add: markExecutionFailed_def)

text \<open>
  A burst that returns has either completed the run, marking the execution \<^verbatim>\<open>COMPLETED\<close>
  and deleting the context, or has suspended it with \<^verbatim>\<open>waitingForInput\<close> set.
\<close>

lemma returned_run_is_completed_or_suspended:
  "processNextNode fuel P ctx w = Some (Inr u, w') \<Longrightarrow>
     getWorkflowState (conversationId ctx) w' = None \<or>
     (\<exists>saved. getWorkflowState (conversationId ctx) w' = Some saved \<and> waitingForInput saved)"
proof (induction fuel arbitrary: ctx w u w')
  case 0
  then show ?case by simp
next
  case (Suc fuel)
  show ?case
  proof (cases "currentNode ctx")
    case None
    with Suc.prems show ?thesis
      by (auto simp: processNextNode.simps(2) currentNode_def
               dest: completeRun_succeeds split: option.splits if_splits)
  next
    case (Some node)
    obtain r c1 w2 where d: "dispatchCurrent P ctx w node = (r, c1, w2)"
      by (metis prod_cases3)
    then have f: "conversationId c1 = conversationId ctx"
      using executeNode_frame by (fastforce simp: dispatchCurrent_def)
    show ?thesis
    proof (cases r)
      case (Inl e')
      with processNextNode_throws [OF Some, of P w e' c1 w2 fuel] d Suc.prems
      show ?thesis by (simp add: logAndRethrow_def)
    next
      case (Inr result)
      let ?c2 = "c1\<lparr>variables := obj_merge (variables c1) result\<rparr>"
      show ?thesis
      proof (cases "waitingForInput c1")
        case True
        from processNextNode_waiting [OF Some, of P w result c1 w2 fuel] d Inr True Suc.prems
        have "w' = saveContext ?c2 (addExecutionLog (executionId ctx) LogWaiting w2)" by simp
        then show ?thesis
          using True f getWorkflowState_saveContext [of ?c2] by simp
      next
        case False
        show ?thesis
        proof (cases "findNextNode P node ?c2")
          case (Inl e')
          with Suc.prems Some d Inr False show ?thesis
            by (auto simp: processNextNode.simps(2) currentNode_def dispatchCurrent_def Let_def
                  logAndRethrow_def split: option.splits if_splits)
        next
          case nx: (Inr nextNodeId)
          show ?thesis
          proof (cases "nextNodeId = None \<or> nextNodeId = Some []")
            case True
            with Suc.prems Some d Inr False nx f show ?thesis
              by (auto simp: processNextNode.simps(2) currentNode_def dispatchCurrent_def Let_def
                    logAndRethrow_def dest!: completeRun_succeeds
                    split: option.splits if_splits prod.splits sum.splits)
          next
            case F2: False
            then obtain t where t: "nextNodeId = Some t" "t \<noteq> []" by auto
            let ?c3 = "c1\<lparr>variables := obj_merge (variables c1) result, currentNodeId := Some t\<rparr>"
            from processNextNode_continues [OF Some, of P w result c1 w2 t fuel] d Inr False nx t
            have p: "processNextNode (Suc fuel) P ctx w =
                       (case processNextNode fuel P ?c3 (saveContext ?c3 w2) of
                          None \<Rightarrow> None
                        | Some (Inl e, w4) \<Rightarrow> Some (logAndRethrow ctx e w4)
                        | Some (Inr u, w4) \<Rightarrow> Some (Inr (), w4))"
              by simp
            with Suc.prems(1) obtain u' where
              i: "processNextNode fuel P ?c3 (saveContext ?c3 w2) = Some (Inr u', w')"
              by (auto simp: logAndRethrow_def split: option.splits sum.splits prod.splits)
            from Suc.IH [OF i] f show ?thesis by simp
          qed
        qed
      qed
    qed
  qed
qed

text \<open>
  C2 does not hold of the code on the \<^verbatim>\<open>FAILED\<close> path. Whenever \<^verbatim>\<open>processNextNode\<close>
  throws for a conversation whose context is persisted, the burst marks the execution
  \<^verbatim>\<open>FAILED\<close> and \<^verbatim>\<open>getWorkflowState\<close> still returns a context: \<^verbatim>\<open>markExecutionFailed\<close> does
  not delete it, and nothing on the way to the error does.
\<close>

theorem failed_run_keeps_context:
  assumes "processNextNode fuel P ctx w = Some (Inl e, w')"
    and "getWorkflowState (conversationId ctx) w \<noteq> None"
    and "executions w' (executionId ctx) \<noteq> None"
  shows "\<exists>w'' ex saved. runBurst fuel P ctx w = Some w''
           \<and> executions w'' (executionId ctx) = Some ex \<and> ex_status ex = FAILED
           \<and> getWorkflowState (conversationId ctx) w'' = Some saved"
proof -
  from assms(3) obtain ex where ex: "executions w' (executionId ctx) = Some ex" by auto
  let ?w'' = "w'\<lparr>executions := (executions w')(executionId ctx \<mapsto>
                     ex\<lparr>ex_status := FAILED, ex_error := Some e\<rparr>)\<rparr>"
  have r: "runBurst fuel P ctx w = Some ?w''"
    using assms(1) markExecutionFailed_effect [OF ex, of e] by (simp add: runBurst_def)
  have "store w (conversationId ctx) \<noteq> None"
    using assms(2) by (simp add: getWorkflowState_def getContext_def)
  from failing_run_deletes_nothing [OF assms(1) this]
  obtain saved where "store w' (conversationId ctx) = Some saved" by auto
  then have "getWorkflowState (conversationId ctx) ?w'' = Some saved"
    by (simp add: getWorkflowState_def getContext_def)
  with r show ?thesis by simp
qed


text \<open>
  The run of a workflow whose only node calls \<^verbatim>\<open>http://127.0.0.1/admin\<close>: the SSRF guard
  throws, the execution becomes \<^verbatim>\<open>FAILED\<close>, and the context that
  \<^verbatim>\<open>initializeWorkflowForConversation\<close> saved is still there.
\<close>

lemma api_initialize:
  "initializeWorkflowForConversation ''exec1'' ''conv1'' ''wf1'' None (api_world url) =
     (Inr (Started ''exec1'' (api_context url)), api_started_world url)"
  by (simp add: initializeWorkflowForConversation_def getContext_def api_world_def
        example_world_def api_graph_def example_node_def Let_def api_started_world_def
        api_context_def example_context_def)

lemma api_burst_fails:
  "\<exists>w'. processNextNode 3 example_platform (api_context ''http://127.0.0.1/admin'')
            (api_started_world ''http://127.0.0.1/admin'') =
          Some (Inl (JsError ''Cannot call localhost or internal addresses''), w')
        \<and> executions w' ''exec1'' \<noteq> None"
  by (simp add: eval_nat_numeral processNextNode.simps(2) api_context_def example_context_def
        api_graph_def example_node_def addExecutionLog_def api_started_world_def saveContext_def
        api_world_def example_world_def executeNode_def api_call_loopback Let_def
        logAndRethrow_def)

theorem failed_run_keeps_context_witness:
  "\<exists>ctx w1 w2 ex saved.
     initializeWorkflowForConversation ''exec1'' ''conv1'' ''wf1'' None
       (api_world ''http://127.0.0.1/admin'') = (Inr (Started ''exec1'' ctx), w1)
     \<and> runBurst 3 example_platform ctx w1 = Some w2
     \<and> executions w2 ''exec1'' = Some ex \<and> ex_status ex = FAILED
     \<and> getWorkflowState ''conv1'' w2 = Some saved"
proof -
  let ?ctx = "api_context ''http://127.0.0.1/admin''"
  let ?w1 = "api_started_world ''http://127.0.0.1/admin''"
  from api_burst_fails obtain w' where
    p: "processNextNode 3 example_platform ?ctx ?w1 =
          Some (Inl (JsError ''Cannot call localhost or internal addresses''), w')"
    and x: "executions w' ''exec1'' \<noteq> None"
    by blast
  have c: "conversationId ?ctx = ''conv1''" "executionId ?ctx = ''exec1''"
    by (simp_all add: api_context_def example_context_def)
  have g: "getWorkflowState (conversationId ?ctx) ?w1 \<noteq> None"
    by (simp add: c getWorkflowState_def getContext_def api_started_world_def saveContext_def
          api_context_def example_context_def)
  from failed_run_keeps_context [OF p g] x c
  obtain w2 ex saved where "runBurst 3 example_platform ?ctx ?w1 = Some w2"
    "executions w2 ''exec1'' = Some ex" "ex_status ex = FAILED"
    "getWorkflowState ''conv1'' w2 = Some saved"
    by auto
  with api_initialize [of "''http://127.0.0.1/admin''"] show ?thesis by blast
qed


section \<open>The SSRF guard\<close>

lemma validateApiUrl_blocks_listed_hosts:
  assumes "parseUrl P url = Some parsed" and "private_host (url_hostname parsed)"
  shows "\<exists>m. validateApiUrl P url = Inl (JsError m) \<and> startsWith m ''Cannot''"
  using assms by (auto simp: validateApiUrl_def private_host_def startsWith_def)

lemma api_call_blocked_before_fetch:
  assumes "interpolateVariables P (config_string config ''url'') vars = Inr url"
    and "parseUrl P url = Some parsed" and "private_host (url_hostname parsed)"
  shows "\<exists>m. executeActionApiCall P config vars w = (Inl (JsError m), w)"
  using validateApiUrl_blocks_listed_hosts [OF assms(2,3)] assms(1)
  by (auto simp: executeActionApiCall_def)

text \<open>
  C9 does not hold of the code for the IPv6 loopback address. The URL parser gives the
  host name of \<^verbatim>\<open>http://[::1]/admin\<close> with its brackets, \<^verbatim>\<open>[::1]\<close>, which is not the entry
  \<^verbatim>\<open>::1\<close> of the blocked list and matches no private prefix: the guard lets it pass and
  the request is issued.
\<close>

theorem bracketed_ipv6_loopback_not_blocked:
  assumes "interpolateVariables P (config_string config ''url'') vars = Inr url"
    and "parseUrl P url = Some \<lparr>url_protocol = ''http:'', url_hostname = ''[::1]''\<rparr>"
    and "\<not> truthy (js_lookup config ''body'')"
  shows "validateApiUrl P url = Inr ()
       \<and> (\<exists>r. fst (executeActionApiCall P config vars w) = Inr r)
       \<and> requests (snd (executeActionApiCall P config vars w)) = requests w @ [url]"
proof -
  have v: "validateApiUrl P url = Inr ()"
    using assms(2)
    by (simp add: validateApiUrl_def lowercase_def blockedHosts_def startsWith_def matches172_def)
  show ?thesis
    using assms(1,3) v
    by (auto simp: executeActionApiCall_def Let_def split: sum.splits prod.splits)
qed

theorem bracketed_ipv6_loopback_not_blocked_witness:
  "validateApiUrl example_platform ''http://[::1]/admin'' = Inr ()
   \<and> requests (snd (executeActionApiCall example_platform [(''url'', JStr ''http://[::1]/admin'')]
                      [] (example_world None))) = [''http://[::1]/admin'']"
proof -
  have a: "interpolateVariables example_platform
             (config_string [(''url'', JStr ''http://[::1]/admin'')] ''url'') [] =
           Inr ''http://[::1]/admin''"
    by (simp add: interpolate_no_variables config_string_def js_lookup_def)
  have b: "parseUrl example_platform ''http://[::1]/admin'' =
             Some \<lparr>url_protocol = ''http:'', url_hostname = ''[::1]''\<rparr>"
    by (simp add: example_platform_def)
  have c: "\<not> truthy (js_lookup [(''url'', JStr ''http://[::1]/admin'')] ''body'')"
    by (simp add: js_lookup_def object_prototype_keys_def)
  from bracketed_ipv6_loopback_not_blocked [OF a b c, of "example_world None"]
  show ?thesis by (simp add: example_world_def)
qed


end
